theory Spec2Isabelle
  imports Main
begin

section \<open>The WASM development server: \<^verbatim>\<open>client/www/wasm_server.py\<close>\<close>

text \<open>
  The program is 27 lines over the standard library of Python: a subclass
  \<^verbatim>\<open>WASMHandler\<close> of \<^verbatim>\<open>http.server.SimpleHTTPRequestHandler\<close> that overrides
  \<^verbatim>\<open>end_headers\<close>, one call of \<^verbatim>\<open>mimetypes.add_type\<close>, and a main block that
  reads the port from \<^verbatim>\<open>sys.argv\<close>, builds a \<^verbatim>\<open>socketserver.TCPServer\<close> and
  calls \<^verbatim>\<open>serve_forever\<close>. The methods the subclass inherits are part of what it
  does, so they are embedded too, from the modules \<^verbatim>\<open>http/server.py\<close>,
  \<^verbatim>\<open>socketserver.py\<close>, \<^verbatim>\<open>mimetypes.py\<close> and \<^verbatim>\<open>posixpath.py\<close> of CPython 3.11, on
  a POSIX system; every definition names the function it embeds.

  Python strings are modelled as \<^typ>\<open>string\<close>: a character is a code point
  below 256, which is what the request line is after its decoding as ISO-8859-1,
  and bytes written to a socket or a stream are the same type.
\<close>

subsection \<open>Exceptions\<close>

text \<open>
  The exceptions that the modelled code raises or catches. \<open>is_Exception\<close> is
  the subclass test of an \<^verbatim>\<open>except Exception:\<close> clause: \<^verbatim>\<open>KeyboardInterrupt\<close>
  derives from \<^verbatim>\<open>BaseException\<close> only. \<open>is_OSError\<close> is the test of
  \<^verbatim>\<open>except OSError:\<close>. A \<^verbatim>\<open>TimeoutError\<close> carries its \<^verbatim>\<open>repr\<close>, which the handler logs.
\<close>

datatype exn =
    ValueError
  | OverflowError
  | UnicodeEncodeError
  | OSError
  | BrokenPipeError
  | ConnectionResetError
  | TimeoutError string
  | KeyboardInterrupt

fun is_Exception :: "exn \<Rightarrow> bool" where
  "is_Exception KeyboardInterrupt = False"
| "is_Exception _ = True"

fun is_OSError :: "exn \<Rightarrow> bool" where
  "is_OSError OSError = True"
| "is_OSError BrokenPipeError = True"
| "is_OSError ConnectionResetError = True"
| "is_OSError (TimeoutError _) = True"
| "is_OSError _ = False"

fun exn_name :: "exn \<Rightarrow> string" where
  "exn_name ValueError = ''ValueError''"
| "exn_name OverflowError = ''OverflowError''"
| "exn_name UnicodeEncodeError = ''UnicodeEncodeError''"
| "exn_name OSError = ''OSError''"
| "exn_name BrokenPipeError = ''BrokenPipeError''"
| "exn_name ConnectionResetError = ''ConnectionResetError''"
| "exn_name (TimeoutError _) = ''TimeoutError''"
| "exn_name KeyboardInterrupt = ''KeyboardInterrupt''"

subsection \<open>The builtins \<^verbatim>\<open>int\<close> and \<^verbatim>\<open>str\<close>\<close>

definition is_digit :: "char \<Rightarrow> bool" where
  "is_digit c = (48 \<le> (of_char c :: nat) \<and> (of_char c :: nat) \<le> 57)"

definition digit_value :: "char \<Rightarrow> nat" where
  "digit_value c = of_char c - 48"

text \<open>\<^verbatim>\<open>Py_ISSPACE\<close>: the ASCII whitespace of C, space and the codes 9 to 13.\<close>

definition Py_ISSPACE :: "char \<Rightarrow> bool" where
  "Py_ISSPACE c = (c = CHR '' '' \<or> (9 \<le> (of_char c :: nat) \<and> (of_char c :: nat) \<le> 13))"

text \<open>
  \<^verbatim>\<open>Py_UNICODE_ISSPACE\<close> on the code points from 127 to 255: NEL (0x85) and the
  no-break space (0xA0). None of these code points has a decimal digit value.
\<close>

definition Py_UNICODE_ISSPACE_high :: "char \<Rightarrow> bool" where
  "Py_UNICODE_ISSPACE_high c = ((of_char c :: nat) = 0x85 \<or> (of_char c :: nat) = 0xA0)"

text \<open>
  \<^verbatim>\<open>_PyUnicode_TransformDecimalAndSpaceToASCII\<close>: an ASCII string is returned as
  it is; otherwise a code point below 127 is kept, a Unicode space becomes a
  blank, and the first other code point (it has no decimal value here) becomes
  \<^verbatim>\<open>?\<close> and ends the result.
\<close>

fun transform_chars :: "string \<Rightarrow> string" where
  "transform_chars [] = []"
| "transform_chars (c # cs) =
     (if (of_char c :: nat) < 127 then c # transform_chars cs
      else if Py_UNICODE_ISSPACE_high c then CHR '' '' # transform_chars cs
      else [CHR ''?''])"

definition TransformDecimalAndSpaceToASCII :: "string \<Rightarrow> string" where
  "TransformDecimalAndSpaceToASCII u =
     (if list_all (\<lambda>c. (of_char c :: nat) < 128) u then u else transform_chars u)"

text \<open>
  The digit scan of \<^verbatim>\<open>PyLong_FromString\<close> in base 10: digits and underscores are
  consumed, two underscores in a row are an error (\<open>None\<close>); the scan returns the
  digits read, the last character consumed (\<^verbatim>\<open>prev\<close>) and the rest of the input.
\<close>

fun scan_digits :: "char \<Rightarrow> string \<Rightarrow> (nat list \<times> char \<times> string) option" where
  "scan_digits prev [] = Some ([], prev, [])"
| "scan_digits prev (c # cs) =
     (if c = CHR ''_'' then (if prev = CHR ''_'' then None else scan_digits c cs)
      else if is_digit c then
        (case scan_digits c cs of
           None \<Rightarrow> None
         | Some (ds, p, rest) \<Rightarrow> Some (digit_value c # ds, p, rest))
      else Some ([], prev, c # cs))"

definition digits_value :: "nat list \<Rightarrow> int" where
  "digits_value ds = foldl (\<lambda>a d. 10 * a + int d) 0 ds"

text \<open>
  \<^verbatim>\<open>int(s)\<close> for a string: \<^verbatim>\<open>PyLong_FromUnicodeObject\<close> and \<^verbatim>\<open>PyLong_FromString\<close>
  with base 10. Leading whitespace, an optional sign, no leading underscore, the
  digit scan, no trailing underscore, the limit on the number of digits
  (\<^verbatim>\<open>sys.get_int_max_str_digits()\<close>, checked above 640 digits, 0 turns it off), at
  least one digit, trailing whitespace, and then the end of the string. Every
  failure is a \<^verbatim>\<open>ValueError\<close>.
\<close>

definition py_int :: "nat \<Rightarrow> string \<Rightarrow> exn + int" where
  "py_int max_str_digits u =
     (let s1 = dropWhile Py_ISSPACE (TransformDecimalAndSpaceToASCII u);
          (sign, s2) =
            (case s1 of
               [] \<Rightarrow> (1::int, s1)
             | c # r \<Rightarrow>
                 if c = CHR ''+'' then (1, r)
                 else if c = CHR ''-'' then (- 1, r)
                 else (1, s1))
      in if take 1 s2 = ''_'' then Inl ValueError
         else
           (case scan_digits (CHR 0x00) s2 of
              None \<Rightarrow> Inl ValueError
            | Some (ds, prev, rest) \<Rightarrow>
                if prev = CHR ''_'' then Inl ValueError
                else if 640 < length ds \<and> 0 < max_str_digits \<and> max_str_digits < length ds
                  then Inl ValueError
                else if ds = [] then Inl ValueError
                else if dropWhile Py_ISSPACE rest \<noteq> [] then Inl ValueError
                else Inr (sign * digits_value ds)))"

text \<open>\<^verbatim>\<open>str(n)\<close> for an integer: the decimal digits, with a minus sign below zero.\<close>

definition digit_char :: "nat \<Rightarrow> char" where
  "digit_char d = char_of (48 + d)"

fun str_nat :: "nat \<Rightarrow> string" where
  "str_nat n = (if n < 10 then [digit_char n] else str_nat (n div 10) @ [digit_char (n mod 10)])"

declare str_nat.simps [simp del]

definition py_str :: "int \<Rightarrow> string" where
  "py_str i = (if i < 0 then CHR ''-'' # str_nat (nat (- i)) else str_nat (nat i))"

subsection \<open>String methods\<close>

text \<open>
  \<^verbatim>\<open>str.isspace\<close>, \<^verbatim>\<open>str.isdigit\<close> and \<^verbatim>\<open>str.lower\<close> on the code points below 256:
  whitespace is 9 to 13, 28 to 32, 0x85 and 0xA0; the digits are 0 to 9 and the
  superscripts 0xB2, 0xB3 and 0xB9; the upper-case letters are A to Z and 0xC0 to
  0xDE without the multiplication sign 0xD7, each 32 below its lower-case letter.
\<close>

definition py_isspace :: "char \<Rightarrow> bool" where
  "py_isspace c =
     (let n = (of_char c :: nat)
      in (9 \<le> n \<and> n \<le> 13) \<or> (28 \<le> n \<and> n \<le> 32) \<or> n = 0x85 \<or> n = 0xA0)"

definition py_isdigit_char :: "char \<Rightarrow> bool" where
  "py_isdigit_char c =
     (let n = (of_char c :: nat)
      in (48 \<le> n \<and> n \<le> 57) \<or> n = 0xB2 \<or> n = 0xB3 \<or> n = 0xB9)"

text \<open>\<^verbatim>\<open>s.isdigit()\<close>: at least one character, and every character a digit.\<close>

definition isdigit :: "string \<Rightarrow> bool" where
  "isdigit s = (s \<noteq> [] \<and> list_all py_isdigit_char s)"

definition lower_char :: "char \<Rightarrow> char" where
  "lower_char c =
     (let n = (of_char c :: nat)
      in if (65 \<le> n \<and> n \<le> 90) \<or> (0xC0 \<le> n \<and> n \<le> 0xDE \<and> n \<noteq> 0xD7)
         then char_of (n + 32) else c)"

definition lower :: "string \<Rightarrow> string" where
  "lower s = map lower_char s"

definition startswith :: "string \<Rightarrow> string \<Rightarrow> bool" where
  "startswith s p = (take (length p) s = p)"

definition endswith :: "string \<Rightarrow> string \<Rightarrow> bool" where
  "endswith s p = (length p \<le> length s \<and> drop (length s - length p) s = p)"

text \<open>\<^verbatim>\<open>s.rstrip()\<close> removes trailing whitespace, \<^verbatim>\<open>s.rstrip(chars)\<close> and
  \<^verbatim>\<open>s.lstrip(chars)\<close> the trailing and the leading characters of a set.\<close>

definition rstrip :: "string \<Rightarrow> string" where
  "rstrip s = rev (dropWhile py_isspace (rev s))"

definition rstrip_chars :: "string \<Rightarrow> string \<Rightarrow> string" where
  "rstrip_chars chars s = rev (dropWhile (\<lambda>c. c \<in> set chars) (rev s))"

definition lstrip_chars :: "string \<Rightarrow> string \<Rightarrow> string" where
  "lstrip_chars chars s = dropWhile (\<lambda>c. c \<in> set chars) s"

text \<open>
  \<^verbatim>\<open>s.split(sep)\<close> with a separator of one character: the fields between the
  separators, at least one field. \<^verbatim>\<open>s.split(sep, 1)\<close> splits at the first
  separator only: \<open>split1_head\<close> is its element 0, \<open>split1_tail\<close> its element 1,
  which does not exist (\<^verbatim>\<open>IndexError\<close>) when the separator does not occur.
\<close>

fun split_sep :: "char \<Rightarrow> string \<Rightarrow> string list" where
  "split_sep sep [] = [[]]"
| "split_sep sep (c # cs) =
     (if c = sep then [] # split_sep sep cs
      else (case split_sep sep cs of
              [] \<Rightarrow> [[c]]
            | w # ws \<Rightarrow> (c # w) # ws))"

definition split1_head :: "char \<Rightarrow> string \<Rightarrow> string" where
  "split1_head sep s = takeWhile (\<lambda>c. c \<noteq> sep) s"

definition split1_tail :: "char \<Rightarrow> string \<Rightarrow> string option" where
  "split1_tail sep s = (if sep \<in> set s then Some (drop 1 (dropWhile (\<lambda>c. c \<noteq> sep) s)) else None)"

text \<open>\<^verbatim>\<open>s.split()\<close>: the maximal runs of characters that are not whitespace.\<close>

fun split_ws :: "string \<Rightarrow> string list" where
  "split_ws [] = []"
| "split_ws (c # cs) =
     (if py_isspace c then split_ws cs
      else (case cs of
              [] \<Rightarrow> [[c]]
            | d # ds \<Rightarrow>
                if py_isspace d then [c] # split_ws cs
                else (case split_ws cs of
                        [] \<Rightarrow> [[c]]
                      | w # ws \<Rightarrow> (c # w) # ws)))"

text \<open>\<^verbatim>\<open>sep.join(words)\<close>.\<close>

fun join_sep :: "string \<Rightarrow> string list \<Rightarrow> string" where
  "join_sep sep [] = []"
| "join_sep sep [w] = w"
| "join_sep sep (w # v # ws) = w @ sep @ join_sep sep (v # ws)"

text \<open>\<^verbatim>\<open>s.rfind(c)\<close>: the index of the last occurrence of a character, or -1.\<close>

primrec rfind :: "char \<Rightarrow> string \<Rightarrow> int" where
  "rfind c [] = - 1"
| "rfind c (x # xs) =
     (let r = rfind c xs
      in if 0 \<le> r then r + 1 else if x = c then 0 else - 1)"

subsection \<open>\<^verbatim>\<open>posixpath\<close>\<close>

text \<open>
  \<^verbatim>\<open>posixpath.splitext\<close> (\<^verbatim>\<open>genericpath._splitext\<close> with separator \<^verbatim>\<open>/\<close> and
  extension separator \<^verbatim>\<open>.\<close>): the extension starts at the last dot, if that dot
  comes after the last separator and some character of the file name before it
  is not a dot.
\<close>

definition splitext :: "string \<Rightarrow> string \<times> string" where
  "splitext p =
     (let sepIndex = rfind CHR ''/'' p;
          dotIndex = rfind CHR ''.'' p
      in if sepIndex < dotIndex \<and>
            list_ex (\<lambda>c. c \<noteq> CHR ''.'') (drop (nat (sepIndex + 1)) (take (nat dotIndex) p))
         then (take (nat dotIndex) p, drop (nat dotIndex) p)
         else (p, []))"

text \<open>The extension of a name that ends with a dot and a suffix without dots.\<close>

lemma rfind_ge: "- 1 \<le> rfind c xs"
  by (induction xs) (auto simp: Let_def)

lemma rfind_absent: "c \<notin> set xs \<Longrightarrow> rfind c xs = - 1"
  by (induction xs) (auto simp: Let_def)

lemma rfind_present: "c \<in> set xs \<Longrightarrow> 0 \<le> rfind c xs"
  by (induction xs) (auto simp: Let_def)

lemma rfind_lt: "rfind c xs < int (length xs)"
  by (induction xs) (auto simp: Let_def)

lemma rfind_append:
  "rfind c (xs @ ys) = (if c \<in> set ys then int (length xs) + rfind c ys else rfind c xs)"
proof (induction xs)
  case Nil
  then show ?case by (simp add: rfind_absent)
next
  case (Cons x xs)
  then show ?case
    using rfind_present [of c ys] rfind_ge [of c ys]
    by (auto simp: Let_def)
qed

lemma splitext_dot_suffix:
  assumes "x \<noteq> CHR ''.''" "x \<noteq> CHR ''/''" "CHR ''.'' \<notin> set e" "CHR ''/'' \<notin> set e"
  shows "splitext (xs @ x # CHR ''.'' # e) = (xs @ [x], CHR ''.'' # e)"
proof -
  let ?p = "xs @ x # CHR ''.'' # e"
  have p: "?p = (xs @ [x]) @ (CHR ''.'' # e)" by simp
  have dot: "rfind CHR ''.'' ?p = int (length xs) + 1"
    unfolding p rfind_append using assms by (simp add: rfind_absent Let_def)
  have sep: "rfind CHR ''/'' ?p = rfind CHR ''/'' xs"
    using assms by (simp add: rfind_append rfind_absent Let_def)
  have lt: "rfind CHR ''/'' xs < int (length xs)" by (rule rfind_lt)
  have ge: "- 1 \<le> rfind CHR ''/'' xs" by (rule rfind_ge)
  have tk: "take (nat (int (length xs) + 1)) ?p = xs @ [x]"
    by (simp add: nat_add_distrib)
  have dr: "drop (nat (int (length xs) + 1)) ?p = CHR ''.'' # e"
    by (simp add: nat_add_distrib)
  have "x \<in> set (drop (nat (rfind CHR ''/'' xs + 1)) (xs @ [x]))"
    using lt ge by (simp add: nat_le_iff)
  then have ex: "list_ex (\<lambda>c. c \<noteq> CHR ''.'') (drop (nat (rfind CHR ''/'' xs + 1)) (xs @ [x]))"
    using assms(1) unfolding list_ex_iff by blast
  show ?thesis
    unfolding splitext_def Let_def dot sep tk dr using lt ex by simp
qed

text \<open>\<^verbatim>\<open>posixpath.dirname\<close>: everything up to the last separator, without trailing
  separators unless it consists of separators only.\<close>

definition dirname :: "string \<Rightarrow> string" where
  "dirname p =
     (let i = nat (rfind CHR ''/'' p + 1);
          head = take i p
      in if head \<noteq> [] \<and> head \<noteq> replicate (length head) CHR ''/''
         then rstrip_chars ''/'' head else head)"

text \<open>\<^verbatim>\<open>posixpath.join(path, b)\<close> with one component.\<close>

definition path_join :: "string \<Rightarrow> string \<Rightarrow> string" where
  "path_join path b =
     (if startswith b ''/'' then b
      else if path = [] \<or> endswith path ''/'' then path @ b
      else path @ ''/'' @ b)"

text \<open>
  \<^verbatim>\<open>posixpath.normpath\<close>: empty and \<^verbatim>\<open>.\<close> components are dropped, \<^verbatim>\<open>..\<close> removes
  the component before it (at the root it is dropped, in a relative path with
  nothing before it, it is kept); exactly two leading slashes are kept.
\<close>

fun normpath_comps :: "bool \<Rightarrow> string list \<Rightarrow> string list \<Rightarrow> string list" where
  "normpath_comps initial_slashes new_comps [] = new_comps"
| "normpath_comps initial_slashes new_comps (cmp # comps) =
     (if cmp = [] \<or> cmp = ''.'' then normpath_comps initial_slashes new_comps comps
      else if cmp \<noteq> ''..'' \<or> (\<not> initial_slashes \<and> new_comps = [])
              \<or> (new_comps \<noteq> [] \<and> last new_comps = ''..'')
        then normpath_comps initial_slashes (new_comps @ [cmp]) comps
      else if new_comps \<noteq> [] then normpath_comps initial_slashes (butlast new_comps) comps
      else normpath_comps initial_slashes new_comps comps)"

definition normpath :: "string \<Rightarrow> string" where
  "normpath path =
     (if path = [] then ''.''
      else
        (let initial_slashes :: nat =
               (if startswith path ''/'' then
                  (if startswith path ''//'' \<and> \<not> startswith path ''///'' then 2 else 1)
                else 0);
             comps = normpath_comps (0 < initial_slashes) [] (split_sep CHR ''/'' path);
             path' = replicate initial_slashes CHR ''/'' @ join_sep ''/'' comps
         in if path' = [] then ''.'' else path'))"

subsection \<open>The platform\<close>

text \<open>
  What the program takes from the interpreter, the library and the operating
  system without computing it in the code modelled here is a parameter: a field
  of the record \<open>platform\<close>.
  \<^item> \<open>int_max_str_digits\<close>: \<^verbatim>\<open>sys.get_int_max_str_digits()\<close>.
  \<^item> \<open>getcwd\<close>: \<^verbatim>\<open>os.getcwd()\<close>, the root directory of the server.
  \<^item> \<open>types_map_init\<close>: the strict table of \<^verbatim>\<open>mimetypes\<close> after \<^verbatim>\<open>mimetypes.init()\<close>,
    that is the defaults of the module and the files of the system.
  \<^item> \<open>guess_url\<close>: \<^verbatim>\<open>MimeTypes.guess_type\<close> on a string that does not start with
    exactly one slash, which \<^verbatim>\<open>urllib.parse.urlparse\<close> may read as a URL with a
    scheme or a network location.
  \<^item> \<open>unquote_escaped\<close>: \<^verbatim>\<open>urllib.parse.unquote\<close> on a string that contains a
    percent sign (the escapes are decoded as UTF-8, with the fallback of
    \<^verbatim>\<open>translate_path\<close>).
  \<^item> \<open>urlsplit_redirect\<close>: for the redirection of a directory without a trailing
    slash, \<^verbatim>\<open>urllib.parse.urlsplit(self.path)\<close>: \<open>None\<close> for its \<^verbatim>\<open>ValueError\<close>, or the
    path component and the URL put together again with a slash added to the path.
  \<^item> \<open>repr\<close>: the builtin \<^verbatim>\<open>repr\<close> on strings (the \<^verbatim>\<open>%r\<close> of the error messages).
  \<^item> \<open>sys_version\<close>: \<^verbatim>\<open>"Python/" + sys.version.split()[0]\<close>.
  \<^item> \<open>date_time_string\<close>: \<^verbatim>\<open>email.utils.formatdate\<close> of a time stamp, or of the
    current time for \<open>None\<close>; \<open>log_date_time_string\<close>: the current time in the
    format of the log.
  \<^item> \<open>parsedate_to_datetime\<close>: \<^verbatim>\<open>email.utils.parsedate_to_datetime\<close>.
  \<^item> \<open>error_page\<close>: \<^verbatim>\<open>error_message_format\<close> filled with the code, the message and
    the explanation (both HTML-escaped), encoded as UTF-8.
  \<^item> \<open>listing_page\<close>: the HTML page that \<^verbatim>\<open>list_directory\<close> builds for a directory,
    the request path and the sorted names, encoded.
  \<^item> \<open>getfilesystemencoding\<close>: \<^verbatim>\<open>sys.getfilesystemencoding()\<close>.
  \<^item> \<open>os_bind\<close>: what the operating system answers to \<^verbatim>\<open>bind\<close> on all interfaces
    and a port between 0 and 65535: an \<^verbatim>\<open>OSError\<close> (address in use, permission
    denied), or the port that \<^verbatim>\<open>getsockname\<close> reports afterwards.
  \<^item> \<open>os_listen\<close>: the \<^verbatim>\<open>OSError\<close> of \<^verbatim>\<open>listen\<close>, if any.
  \<^item> \<open>print_error\<close>: the exception that \<^verbatim>\<open>print\<close> raises on standard output, if any
    (a \<^verbatim>\<open>UnicodeEncodeError\<close> where its encoding has no emoji, an \<^verbatim>\<open>OSError\<close> where
    it is closed).
  \<^item> \<open>format_tb\<close> and \<open>exn_message\<close>: the stack frames of a traceback and the text
    after the name of the exception in its last line.
\<close>

datatype parsed_date =
    IllFormed
  | Naive int
  | AwareUTC int
  | AwareOther int

record platform =
  int_max_str_digits :: nat
  getcwd :: string
  types_map_init :: "string \<Rightarrow> string option"
  guess_url :: "string \<Rightarrow> string option"
  unquote_escaped :: "string \<Rightarrow> string"
  urlsplit_redirect :: "string \<Rightarrow> (string \<times> string) option"
  repr :: "string \<Rightarrow> string"
  sys_version :: string
  date_time_string :: "int option \<Rightarrow> string"
  log_date_time_string :: string
  parsedate_to_datetime :: "string \<Rightarrow> parsed_date"
  error_page :: "nat \<Rightarrow> string \<Rightarrow> string \<Rightarrow> string"
  listing_page :: "string \<Rightarrow> string \<Rightarrow> string list \<Rightarrow> string"
  getfilesystemencoding :: string
  os_bind :: "int \<Rightarrow> exn + int"
  os_listen :: "exn option"
  print_error :: "exn option"
  format_tb :: "exn \<Rightarrow> string"
  exn_message :: "exn \<Rightarrow> string"

subsection \<open>The file system\<close>

text \<open>
  The file system is a function from a path, as the program passes it to the
  operating system, to what is found there: nothing, a directory with the result
  of \<^verbatim>\<open>os.listdir\<close> (\<open>None\<close> for an \<^verbatim>\<open>OSError\<close>), or a regular file with its bytes
  and its modification time in whole seconds (\<open>None\<close> when \<^verbatim>\<open>open\<close> is refused).
  A path with a null character is refused by the interpreter before the operating
  system sees it: \<^verbatim>\<open>os.path.isdir\<close> and \<^verbatim>\<open>os.path.isfile\<close> catch the \<^verbatim>\<open>ValueError\<close>
  and answer \<^verbatim>\<open>False\<close>, \<^verbatim>\<open>open\<close> raises it.
\<close>

record file_data =
  content :: string
  st_mtime :: int

datatype node =
    Directory "string list option"
  | Regular "file_data option"

type_synonym filesystem = "string \<Rightarrow> node option"

definition isdir :: "filesystem \<Rightarrow> string \<Rightarrow> bool" where
  "isdir fs p =
     (if CHR 0x00 \<in> set p then False
      else (case fs p of Some (Directory _) \<Rightarrow> True | _ \<Rightarrow> False))"

definition isfile :: "filesystem \<Rightarrow> string \<Rightarrow> bool" where
  "isfile fs p =
     (if CHR 0x00 \<in> set p then False
      else (case fs p of Some (Regular _) \<Rightarrow> True | _ \<Rightarrow> False))"

definition py_open :: "filesystem \<Rightarrow> string \<Rightarrow> exn + file_data" where
  "py_open fs p =
     (if CHR 0x00 \<in> set p then Inl ValueError
      else (case fs p of Some (Regular (Some f)) \<Rightarrow> Inr f | _ \<Rightarrow> Inl OSError))"

definition listdir :: "filesystem \<Rightarrow> string \<Rightarrow> exn + string list" where
  "listdir fs p =
     (if CHR 0x00 \<in> set p then Inl ValueError
      else (case fs p of Some (Directory (Some names)) \<Rightarrow> Inr names | _ \<Rightarrow> Inl OSError))"

subsection \<open>\<^verbatim>\<open>mimetypes\<close>\<close>

definition suffix_map :: "string \<Rightarrow> string option" where
  "suffix_map = map_of
     [(''.svgz'', ''.svg.gz''), (''.tgz'', ''.tar.gz''), (''.taz'', ''.tar.gz''),
      (''.tz'', ''.tar.gz''), (''.tbz2'', ''.tar.bz2''), (''.txz'', ''.tar.xz'')]"

definition encodings_map :: "string \<Rightarrow> string option" where
  "encodings_map = map_of
     [(''.gz'', ''gzip''), (''.Z'', ''compress''), (''.bz2'', ''bzip2''),
      (''.xz'', ''xz''), (''.br'', ''br'')]"

text \<open>\<^verbatim>\<open>MimeTypes.add_type(type, ext)\<close> on the strict table: the new type replaces
  the old one.\<close>

definition add_type :: "(string \<Rightarrow> string option) \<Rightarrow> string \<Rightarrow> string \<Rightarrow> (string \<Rightarrow> string option)" where
  "add_type tm type ext = tm(ext \<mapsto> type)"

text \<open>Line 13 of the program: \<^verbatim>\<open>mimetypes.add_type('application/wasm', '.wasm')\<close>,
  on the table that \<^verbatim>\<open>mimetypes.init()\<close> has filled.\<close>

definition types_map :: "platform \<Rightarrow> string \<Rightarrow> string option" where
  "types_map pf = add_type (types_map_init pf) ''application/wasm'' ''.wasm''"

text \<open>
  The loop of \<^verbatim>\<open>MimeTypes.guess_type\<close> over \<^verbatim>\<open>suffix_map\<close>:
  \<^verbatim>\<open>while ext.lower() in self.suffix_map: base, ext = splitext(base + suffix_map[ext.lower()])\<close>.
  It ends after one round, since no value of the table ends in one of its keys.
\<close>

lemma suffix_map_ran:
  "suffix_map e = Some s \<Longrightarrow>
   s = ''.svg.gz'' \<or> s = ''.tar.gz'' \<or> s = ''.tar.bz2'' \<or> s = ''.tar.xz''"
  by (auto simp: suffix_map_def split: if_splits)

lemma suffix_map_step:
  assumes "suffix_map e = Some s"
  shows "suffix_map (lower (snd (splitext (base @ s)))) = None"
proof -
  have a: "splitext (base @ ''.svg.gz'') = (base @ ''.svg'', ''.gz'')"
    using splitext_dot_suffix [of "CHR ''g''" "''gz''" "base @ ''.sv''"] by simp
  have b: "splitext (base @ ''.tar.gz'') = (base @ ''.tar'', ''.gz'')"
    using splitext_dot_suffix [of "CHR ''r''" "''gz''" "base @ ''.ta''"] by simp
  have c: "splitext (base @ ''.tar.bz2'') = (base @ ''.tar'', ''.bz2'')"
    using splitext_dot_suffix [of "CHR ''r''" "''bz2''" "base @ ''.ta''"] by simp
  have d: "splitext (base @ ''.tar.xz'') = (base @ ''.tar'', ''.xz'')"
    using splitext_dot_suffix [of "CHR ''r''" "''xz''" "base @ ''.ta''"] by simp
  have l: "suffix_map (lower ''.gz'') = None" "suffix_map (lower ''.bz2'') = None"
    "suffix_map (lower ''.xz'') = None"
    by (simp_all add: suffix_map_def lower_def lower_char_def)
  from suffix_map_ran [OF assms] show ?thesis
    using a b c d l by auto
qed

function suffix_loop :: "string \<Rightarrow> string \<Rightarrow> string \<times> string" where
  "suffix_loop base ext =
     (case suffix_map (lower ext) of
        None \<Rightarrow> (base, ext)
      | Some s \<Rightarrow> suffix_loop (fst (splitext (base @ s))) (snd (splitext (base @ s))))"
  by pat_completeness auto
termination
  by (relation "measure (\<lambda>p. if suffix_map (lower (snd p)) = None then 0 else 1)")
     (auto simp: suffix_map_step)

declare suffix_loop.simps [simp del]

text \<open>
  \<^verbatim>\<open>MimeTypes.guess_type(url)\<close>, its first component (the type). A string that
  starts with exactly one slash has no scheme and no network location for
  \<^verbatim>\<open>urlparse\<close>, so it is taken as a path: after the suffix loop an extension of
  \<^verbatim>\<open>encodings_map\<close> (matched as it is written) is split off, and what remains is
  looked up in lower case in the strict table.
\<close>

definition MimeTypes_guess_type :: "platform \<Rightarrow> string \<Rightarrow> string option" where
  "MimeTypes_guess_type pf url =
     (if startswith url ''/'' \<and> \<not> startswith url ''//'' then
        (let be = suffix_loop (fst (splitext url)) (snd (splitext url));
             ext = (if encodings_map (snd be) \<noteq> None then snd (splitext (fst be)) else snd be)
         in types_map pf (lower ext))
      else guess_url pf url)"

subsection \<open>The request handler: \<^verbatim>\<open>BaseHTTPRequestHandler\<close>\<close>

text \<open>
  The state of one handler object, with the two streams it writes: \<open>wfile\<close> is
  the sequence of bytes written to the socket (\<^verbatim>\<open>wfile\<close> is unbuffered, and its
  writes are taken to succeed), \<open>stderr\<close> what \<^verbatim>\<open>log_message\<close> has written to
  \<^verbatim>\<open>sys.stderr\<close>. \<open>headers_buffer\<close> is the attribute \<^verbatim>\<open>_headers_buffer\<close>, \<open>None\<close> while
  the object does not have it. \<open>command\<close> is \<open>None\<close> for Python's \<^verbatim>\<open>None\<close>.
  \<open>headers\<close> are the request headers as pairs of name and value.
\<close>

record handler =
  client_address :: "string \<times> nat"
  directory :: string
  raw_requestline :: string
  requestline :: string
  request_version :: string
  command :: "string option"
  path :: string
  headers :: "(string \<times> string) list"
  close_connection :: bool
  headers_buffer :: "string list option"
  wfile :: string
  stderr :: string

definition CRLF :: string where
  "CRLF = [CHR 0x0D, CHR 0x0A]"

definition LF :: string where
  "LF = [CHR 0x0A]"

definition protocol_version :: string where
  "protocol_version = ''HTTP/1.0''"

definition server_version :: string where
  "server_version = ''SimpleHTTP/0.6''"

definition error_content_type :: string where
  "error_content_type = ''text/html;charset=utf-8''"

text \<open>The entries of \<^verbatim>\<open>responses\<close> (from \<^verbatim>\<open>http.HTTPStatus\<close>) for the codes that the
  handler sends: the phrase and the description.\<close>

definition responses :: "nat \<Rightarrow> (string \<times> string) option" where
  "responses = map_of
     [(100, (''Continue'', ''Request received, please continue'')),
      (200, (''OK'', ''Request fulfilled, document follows'')),
      (301, (''Moved Permanently'', ''Object moved permanently -- see URI list'')),
      (304, (''Not Modified'', ''Document has not changed since given time'')),
      (400, (''Bad Request'', ''Bad request syntax or unsupported method'')),
      (404, (''Not Found'', ''Nothing matches the given URI'')),
      (414, (''Request-URI Too Long'', ''URI is too long'')),
      (431, (''Request Header Fields Too Large'',
             ''The server is unwilling to process the request because its header fields are too large'')),
      (501, (''Not Implemented'', ''Server does not support this operation'')),
      (505, (''HTTP Version Not Supported'', ''Cannot fulfill request''))]"

text \<open>Comparison of strings, \<^verbatim>\<open>a <= b\<close>, by code points.\<close>

fun str_le :: "string \<Rightarrow> string \<Rightarrow> bool" where
  "str_le [] b = True"
| "str_le (x # xs) [] = False"
| "str_le (x # xs) (y # ys) =
     ((of_char x :: nat) < of_char y \<or> (x = y \<and> str_le xs ys))"

text \<open>\<^verbatim>\<open>log_message\<close>: one line on \<^verbatim>\<open>sys.stderr\<close>, with the control characters and
  the backslash of the message escaped.\<close>

definition hex_digit :: "nat \<Rightarrow> char" where
  "hex_digit d = (if d < 10 then char_of (48 + d) else char_of (87 + d))"

definition escape_control_char :: "char \<Rightarrow> string" where
  "escape_control_char c =
     (let n = (of_char c :: nat)
      in if n < 0x20 \<or> (0x7F \<le> n \<and> n < 0xA0)
         then [CHR 0x5C, CHR ''x'', hex_digit (n div 16), hex_digit (n mod 16)]
         else if n = 0x5C then [CHR 0x5C, CHR 0x5C]
         else [c])"

definition address_string :: "handler \<Rightarrow> string" where
  "address_string h = fst (client_address h)"

definition log_message :: "platform \<Rightarrow> string \<Rightarrow> handler \<Rightarrow> handler" where
  "log_message pf message h =
     h\<lparr>stderr := stderr h @ address_string h @ '' - - ['' @ log_date_time_string pf @ ''] ''
                    @ concat (map escape_control_char message) @ LF\<rparr>"

definition log_request :: "platform \<Rightarrow> nat \<Rightarrow> handler \<Rightarrow> handler" where
  "log_request pf code h =
     log_message pf ([CHR 0x22] @ requestline h @ [CHR 0x22] @ '' '' @ py_str (int code) @ '' -'') h"

definition log_error :: "platform \<Rightarrow> string \<Rightarrow> handler \<Rightarrow> handler" where
  "log_error pf message h = log_message pf message h"

definition version_string :: "platform \<Rightarrow> string" where
  "version_string pf = server_version @ '' '' @ sys_version pf"

definition the_buffer :: "handler \<Rightarrow> string list" where
  "the_buffer h = (case headers_buffer h of None \<Rightarrow> [] | Some b \<Rightarrow> b)"

text \<open>The status line \<^verbatim>\<open>"%s %d %s\r\n" % (self.protocol_version, code, message)\<close> and
  a header line \<^verbatim>\<open>"%s: %s\r\n" % (keyword, value)\<close>.\<close>

definition status_line :: "nat \<Rightarrow> string \<Rightarrow> string" where
  "status_line code message =
     protocol_version @ '' '' @ py_str (int code) @ '' '' @ message @ CRLF"

definition header_line :: "string \<Rightarrow> string \<Rightarrow> string" where
  "header_line keyword val = keyword @ '': '' @ val @ CRLF"

definition send_response_only :: "nat \<Rightarrow> string option \<Rightarrow> handler \<Rightarrow> handler" where
  "send_response_only code message h =
     (if request_version h \<noteq> ''HTTP/0.9'' then
        (let message' =
               (case message of
                  Some m \<Rightarrow> m
                | None \<Rightarrow> (case responses code of Some r \<Rightarrow> fst r | None \<Rightarrow> []))
         in h\<lparr>headers_buffer := Some (the_buffer h @ [status_line code message'])\<rparr>)
      else h)"

definition send_header :: "string \<Rightarrow> string \<Rightarrow> handler \<Rightarrow> handler" where
  "send_header keyword val h =
     (let h1 = (if request_version h \<noteq> ''HTTP/0.9''
                then h\<lparr>headers_buffer := Some (the_buffer h @ [header_line keyword val])\<rparr>
                else h)
      in if lower keyword = ''connection'' then
           (if lower val = ''close'' then h1\<lparr>close_connection := True\<rparr>
            else if lower val = ''keep-alive'' then h1\<lparr>close_connection := False\<rparr>
            else h1)
         else h1)"

definition flush_headers :: "handler \<Rightarrow> handler" where
  "flush_headers h =
     (case headers_buffer h of
        None \<Rightarrow> h
      | Some b \<Rightarrow> h\<lparr>wfile := wfile h @ concat b, headers_buffer := Some []\<rparr>)"

text \<open>
  \<^verbatim>\<open>BaseHTTPRequestHandler.end_headers\<close>. It appends to \<^verbatim>\<open>_headers_buffer\<close> without
  the test that \<^verbatim>\<open>send_header\<close> makes; in this program it runs only after the two
  calls of \<^verbatim>\<open>send_header\<close> in the override below, which create the attribute for
  every version but HTTP/0.9, so that the model reads an absent buffer as empty.
\<close>

definition BaseHTTPRequestHandler_end_headers :: "handler \<Rightarrow> handler" where
  "BaseHTTPRequestHandler_end_headers h =
     (if request_version h \<noteq> ''HTTP/0.9''
      then flush_headers (h\<lparr>headers_buffer := Some (the_buffer h @ [CRLF])\<rparr>)
      else h)"

subsection \<open>\<^verbatim>\<open>WASMHandler\<close>\<close>

text \<open>
  Lines 15 to 20 of the program:
  \<^verbatim>\<open>
  class WASMHandler(http.server.SimpleHTTPRequestHandler):
      def end_headers(self):
          self.send_header('Cross-Origin-Embedder-Policy', 'require-corp')
          self.send_header('Cross-Origin-Opener-Policy', 'same-origin')
          super().end_headers()
  \<close>
  Every \<^verbatim>\<open>self.end_headers()\<close> of the inherited methods is a call of this method.
\<close>

definition WASMHandler_end_headers :: "handler \<Rightarrow> handler" where
  "WASMHandler_end_headers h =
     BaseHTTPRequestHandler_end_headers
       (send_header ''Cross-Origin-Opener-Policy'' ''same-origin''
         (send_header ''Cross-Origin-Embedder-Policy'' ''require-corp'' h))"

definition send_response :: "platform \<Rightarrow> nat \<Rightarrow> string option \<Rightarrow> handler \<Rightarrow> handler" where
  "send_response pf code message h =
     send_header ''Date'' (date_time_string pf None)
       (send_header ''Server'' (version_string pf)
         (send_response_only code message (log_request pf code h)))"

text \<open>
  \<^verbatim>\<open>send_error(code, message, explain)\<close>: the error is logged, the status line and
  the headers are sent with \<^verbatim>\<open>Connection: close\<close>, and the page follows unless the
  code is below 200 or one of 204, 205 and 304, or the command is \<^verbatim>\<open>HEAD\<close>.
\<close>

definition send_error :: "platform \<Rightarrow> nat \<Rightarrow> string option \<Rightarrow> string option \<Rightarrow> handler \<Rightarrow> handler" where
  "send_error pf code message explain h =
     (let short_long = (case responses code of Some r \<Rightarrow> r | None \<Rightarrow> (''???'', ''???''));
          message' = (case message of None \<Rightarrow> fst short_long | Some m \<Rightarrow> m);
          explain' = (case explain of None \<Rightarrow> snd short_long | Some e \<Rightarrow> e);
          h1 = log_error pf (''code '' @ py_str (int code) @ '', message '' @ message') h;
          h2 = send_response pf code (Some message') h1;
          h3 = send_header ''Connection'' ''close'' h2;
          has_body = (200 \<le> code \<and> code \<noteq> 204 \<and> code \<noteq> 205 \<and> code \<noteq> 304);
          body = error_page pf code message' explain';
          h4 = (if has_body
                then send_header ''Content-Length'' (py_str (int (length body)))
                       (send_header ''Content-Type'' error_content_type h3)
                else h3);
          h5 = WASMHandler_end_headers h4
      in if command h5 \<noteq> Some ''HEAD'' \<and> has_body \<and> body \<noteq> []
         then h5\<lparr>wfile := wfile h5 @ body\<rparr> else h5)"

subsection \<open>The inherited file handler: \<^verbatim>\<open>SimpleHTTPRequestHandler\<close>\<close>

text \<open>\<^verbatim>\<open>urllib.parse.unquote\<close>: a string without a percent sign is returned as it
  is.\<close>

definition unquote :: "platform \<Rightarrow> string \<Rightarrow> string" where
  "unquote pf s = (if CHR ''%'' \<in> set s then unquote_escaped pf s else s)"

text \<open>
  \<^verbatim>\<open>translate_path\<close>: the query and the fragment are cut off, the path is unquoted
  and normalised, and its words are joined to the root directory one by one; a
  word that has a directory part or is \<^verbatim>\<open>.\<close> or \<^verbatim>\<open>..\<close> is skipped. A trailing slash
  of the request path is put back.
\<close>

definition translate_word :: "string \<Rightarrow> string \<Rightarrow> string" where
  "translate_word p word =
     (if dirname word \<noteq> [] \<or> word = ''.'' \<or> word = ''..'' then p else path_join p word)"

definition translate_path :: "platform \<Rightarrow> string \<Rightarrow> string \<Rightarrow> string" where
  "translate_path pf dir p =
     (let p1 = split1_head CHR ''?'' p;
          p2 = split1_head CHR ''#'' p1;
          trailing_slash = endswith (rstrip p2) ''/'';
          p3 = normpath (unquote pf p2);
          words = filter (\<lambda>w. w \<noteq> []) (split_sep CHR ''/'' p3);
          p4 = foldl translate_word dir words
      in if trailing_slash then p4 @ ''/'' else p4)"

definition extensions_map :: "string \<Rightarrow> string option" where
  "extensions_map = map_of
     [(''.gz'', ''application/gzip''), (''.Z'', ''application/octet-stream''),
      (''.bz2'', ''application/x-bzip2''), (''.xz'', ''application/x-xz'')]"

text \<open>\<^verbatim>\<open>SimpleHTTPRequestHandler.guess_type\<close>: the table of the class, with the
  extension as written and then in lower case, then \<^verbatim>\<open>mimetypes.guess_type\<close>, then
  the default.\<close>

definition guess_type :: "platform \<Rightarrow> string \<Rightarrow> string" where
  "guess_type pf p =
     (let ext = snd (splitext p)
      in case extensions_map ext of
           Some t \<Rightarrow> t
         | None \<Rightarrow>
             (case extensions_map (lower ext) of
                Some t \<Rightarrow> t
              | None \<Rightarrow>
                  (case MimeTypes_guess_type pf p of
                     Some g \<Rightarrow> if g \<noteq> [] then g else ''application/octet-stream''
                   | None \<Rightarrow> ''application/octet-stream'')))"

text \<open>Lookup of a request header: the names compare without case, the first match
  counts.\<close>

definition header_get :: "(string \<times> string) list \<Rightarrow> string \<Rightarrow> string option" where
  "header_get hs name = map_of (map (\<lambda>kv. (lower (fst kv), snd kv)) hs) (lower name)"

text \<open>
  \<^verbatim>\<open>list_directory\<close>: an \<^verbatim>\<open>OSError\<close> of \<^verbatim>\<open>os.listdir\<close> is answered with 404;
  otherwise the page is sent with status 200 and returned as the file to copy.
\<close>

definition list_directory :: "platform \<Rightarrow> filesystem \<Rightarrow> string \<Rightarrow> handler \<Rightarrow> exn + (string option \<times> handler)" where
  "list_directory pf fs p h =
     (case listdir fs p of
        Inl e \<Rightarrow>
          if is_OSError e
          then Inr (None, send_error pf 404 (Some ''No permission to list directory'') None h)
          else Inl e
      | Inr names \<Rightarrow>
          (let encoded = listing_page pf p (path h) names;
               h1 = send_response pf 200 None h;
               h2 = send_header ''Content-type''
                      (''text/html; charset='' @ getfilesystemencoding pf) h1;
               h3 = send_header ''Content-Length'' (py_str (int (length encoded))) h2
           in Inr (Some encoded, WASMHandler_end_headers h3)))"

text \<open>
  The test of \<^verbatim>\<open>send_head\<close> for the browser cache: the request has
  \<^verbatim>\<open>If-Modified-Since\<close> and no \<^verbatim>\<open>If-None-Match\<close>, the date parses, it has no time zone
  or its time zone is UTC, and the file was not modified after it.
\<close>

definition not_modified :: "platform \<Rightarrow> (string \<times> string) list \<Rightarrow> int \<Rightarrow> bool" where
  "not_modified pf hs mtime =
     (case header_get hs ''If-Modified-Since'' of
        None \<Rightarrow> False
      | Some v \<Rightarrow>
          if header_get hs ''If-None-Match'' \<noteq> None then False
          else (case parsedate_to_datetime pf v of
                  IllFormed \<Rightarrow> False
                | Naive ims \<Rightarrow> mtime \<le> ims
                | AwareUTC ims \<Rightarrow> mtime \<le> ims
                | AwareOther ims \<Rightarrow> False))"

text \<open>
  \<^verbatim>\<open>send_head\<close> from \<^verbatim>\<open>ctype = self.guess_type(path)\<close> on, for the path of a file:
  404 for a trailing slash or when \<^verbatim>\<open>open\<close> raises an \<^verbatim>\<open>OSError\<close>, 304 for the browser
  cache, else 200 with the headers of the file; the file is returned for copying.
\<close>

definition send_head_file :: "platform \<Rightarrow> filesystem \<Rightarrow> string \<Rightarrow> handler \<Rightarrow> exn + (string option \<times> handler)" where
  "send_head_file pf fs p h =
     (let ctype = guess_type pf p
      in if endswith p ''/'' then Inr (None, send_error pf 404 (Some ''File not found'') None h)
         else
           (case py_open fs p of
              Inl e \<Rightarrow>
                if is_OSError e
                then Inr (None, send_error pf 404 (Some ''File not found'') None h)
                else Inl e
            | Inr f \<Rightarrow>
                if not_modified pf (headers h) (st_mtime f)
                then Inr (None, WASMHandler_end_headers (send_response pf 304 None h))
                else
                  (let h1 = send_response pf 200 None h;
                       h2 = send_header ''Content-type'' ctype h1;
                       h3 = send_header ''Content-Length'' (py_str (int (length (content f)))) h2;
                       h4 = send_header ''Last-Modified'' (date_time_string pf (Some (st_mtime f))) h3
                   in Inr (Some (content f), WASMHandler_end_headers h4))))"

text \<open>
  \<^verbatim>\<open>send_head\<close>: a directory without a trailing slash in the request is
  redirected, a directory with \<^verbatim>\<open>index.html\<close> or \<^verbatim>\<open>index.htm\<close> serves that file, any
  other directory is listed, and everything else is served as a file.
\<close>

definition send_head :: "platform \<Rightarrow> filesystem \<Rightarrow> handler \<Rightarrow> exn + (string option \<times> handler)" where
  "send_head pf fs h =
     (let p = translate_path pf (directory h) (path h)
      in if isdir fs p then
           (case urlsplit_redirect pf (path h) of
              None \<Rightarrow> Inl ValueError
            | Some parts \<Rightarrow>
                if \<not> endswith (fst parts) ''/'' then
                  (let h1 = send_response pf 301 None h;
                       h2 = send_header ''Location'' (snd parts) h1;
                       h3 = send_header ''Content-Length'' ''0'' h2
                   in Inr (None, WASMHandler_end_headers h3))
                else if isfile fs (path_join p ''index.html'')
                  then send_head_file pf fs (path_join p ''index.html'') h
                else if isfile fs (path_join p ''index.htm'')
                  then send_head_file pf fs (path_join p ''index.htm'') h
                else list_directory pf fs p h)
         else send_head_file pf fs p h)"

text \<open>\<^verbatim>\<open>do_GET\<close> copies the file that \<^verbatim>\<open>send_head\<close> returns to \<^verbatim>\<open>wfile\<close>
  (\<^verbatim>\<open>shutil.copyfileobj\<close>); \<^verbatim>\<open>do_HEAD\<close> closes it.\<close>

definition copyfile :: "string \<Rightarrow> handler \<Rightarrow> handler" where
  "copyfile source h = h\<lparr>wfile := wfile h @ source\<rparr>"

definition do_GET :: "platform \<Rightarrow> filesystem \<Rightarrow> handler \<Rightarrow> exn + handler" where
  "do_GET pf fs h =
     (case send_head pf fs h of
        Inl e \<Rightarrow> Inl e
      | Inr (None, h') \<Rightarrow> Inr h'
      | Inr (Some f, h') \<Rightarrow> Inr (copyfile f h'))"

definition do_HEAD :: "platform \<Rightarrow> filesystem \<Rightarrow> handler \<Rightarrow> exn + handler" where
  "do_HEAD pf fs h =
     (case send_head pf fs h of
        Inl e \<Rightarrow> Inl e
      | Inr (_, h') \<Rightarrow> Inr h')"

subsection \<open>Parsing and handling a request\<close>

text \<open>
  What the handler reads from the socket. A read of the request line
  (\<^verbatim>\<open>self.rfile.readline(65537)\<close>) returns bytes, none at the end of the stream,
  or raises. The header lines that follow are read and parsed by
  \<^verbatim>\<open>http.client.parse_headers\<close>, whose result is given with the request line: the
  headers, or one of its two exceptions with its text.
\<close>

datatype header_input =
    Parsed "(string \<times> string) list"
  | LineTooLong string
  | TooManyHeaders string

datatype read_result =
    Line string header_input
  | ReadError exn

text \<open>
  The version check of \<^verbatim>\<open>parse_request\<close>, the body of its \<^verbatim>\<open>try\<close>: \<open>None\<close> stands for
  the \<^verbatim>\<open>ValueError\<close> or \<^verbatim>\<open>IndexError\<close> that the \<^verbatim>\<open>except\<close> clause answers with 400.
\<close>

definition version_number :: "platform \<Rightarrow> string \<Rightarrow> (int \<times> int) option" where
  "version_number pf version =
     (if \<not> startswith version ''HTTP/'' then None
      else
        (case split1_tail CHR ''/'' version of
           None \<Rightarrow> None
         | Some base_version_number \<Rightarrow>
             (let components = split_sep CHR ''.'' base_version_number
              in if length components \<noteq> 2 then None
                 else if list_ex (\<lambda>c. \<not> isdigit c) components then None
                 else if list_ex (\<lambda>c. 10 < length c) components then None
                 else
                   (case (py_int (int_max_str_digits pf) (components ! 0),
                          py_int (int_max_str_digits pf) (components ! 1)) of
                      (Inr a, Inr b) \<Rightarrow> Some (a, b)
                    | _ \<Rightarrow> None))))"

text \<open>Comparison of pairs, \<^verbatim>\<open>a >= b\<close>.\<close>

definition tuple_ge :: "int \<times> int \<Rightarrow> int \<times> int \<Rightarrow> bool" where
  "tuple_ge a b = (fst b < fst a \<or> (fst a = fst b \<and> snd b \<le> snd a))"

definition handle_expect_100 :: "handler \<Rightarrow> bool \<times> handler" where
  "handle_expect_100 h = (True, WASMHandler_end_headers (send_response_only 100 None h))"

text \<open>
  \<^verbatim>\<open>parse_request\<close>, from the headers on: the \<^verbatim>\<open>Connection\<close> and \<^verbatim>\<open>Expect\<close>
  directives.
\<close>

definition parse_request_headers :: "platform \<Rightarrow> header_input \<Rightarrow> handler \<Rightarrow> bool \<times> handler" where
  "parse_request_headers pf hi h =
     (case hi of
        LineTooLong err \<Rightarrow> (False, send_error pf 431 (Some ''Line too long'') (Some err) h)
      | TooManyHeaders err \<Rightarrow> (False, send_error pf 431 (Some ''Too many headers'') (Some err) h)
      | Parsed hs \<Rightarrow>
          (let h1 = h\<lparr>headers := hs\<rparr>;
               conntype = (case header_get hs ''Connection'' of None \<Rightarrow> [] | Some v \<Rightarrow> v);
               h2 = (if lower conntype = ''close'' then h1\<lparr>close_connection := True\<rparr>
                     else if lower conntype = ''keep-alive'' \<and> str_le ''HTTP/1.1'' protocol_version
                       then h1\<lparr>close_connection := False\<rparr>
                     else h1);
               expect = (case header_get hs ''Expect'' of None \<Rightarrow> [] | Some v \<Rightarrow> v)
           in if lower expect = ''100-continue'' \<and> str_le ''HTTP/1.1'' protocol_version
                 \<and> str_le ''HTTP/1.1'' (request_version h2)
              then handle_expect_100 h2
              else (True, h2)))"

text \<open>The path of the request in \<^verbatim>\<open>parse_request\<close>: several slashes at its start
  are reduced to one (\<^verbatim>\<open>if self.path.startswith('//'): self.path = '/' + self.path.lstrip('/')\<close>).\<close>

definition collapse_slashes :: "string \<Rightarrow> string" where
  "collapse_slashes p = (if startswith p ''//'' then ''/'' @ lstrip_chars ''/'' p else p)"

text \<open>\<^verbatim>\<open>parse_request\<close>, from \<^verbatim>\<open>if not 2 <= len(words) <= 3\<close> on; the request version
  is settled before.\<close>

definition parse_request_words :: "platform \<Rightarrow> header_input \<Rightarrow> string list \<Rightarrow> handler \<Rightarrow> bool \<times> handler" where
  "parse_request_words pf hi words h =
     (if \<not> (2 \<le> length words \<and> length words \<le> 3) then
        (False, send_error pf 400
           (Some (''Bad request syntax ('' @ repr pf (requestline h) @ '')'')) None h)
      else
        (let command' = words ! 0;
             path' = words ! 1;
             h1 = (if length words = 2 then h\<lparr>close_connection := True\<rparr> else h)
         in if length words = 2 \<and> command' \<noteq> ''GET'' then
              (False, send_error pf 400
                 (Some (''Bad HTTP/0.9 request type ('' @ repr pf command' @ '')'')) None h1)
            else
              parse_request_headers pf hi
                (h1\<lparr>command := Some command', path := collapse_slashes path'\<rparr>)))"

text \<open>
  \<^verbatim>\<open>parse_request\<close>: the request line is decoded and split at whitespace; with
  three words or more the last one is the version, which must be \<^verbatim>\<open>HTTP/\<close> and two
  numbers below 2.0; the default version is HTTP/0.9.
\<close>

definition parse_request :: "platform \<Rightarrow> header_input \<Rightarrow> handler \<Rightarrow> bool \<times> handler" where
  "parse_request pf hi h =
     (let h1 = h\<lparr>command := None, request_version := ''HTTP/0.9'', close_connection := True\<rparr>;
          requestline' = rstrip_chars CRLF (raw_requestline h1);
          h2 = h1\<lparr>requestline := requestline'\<rparr>;
          words = split_ws requestline'
      in if length words = 0 then (False, h2)
         else if 3 \<le> length words then
           (let version = last words
            in case version_number pf version of
                 None \<Rightarrow>
                   (False, send_error pf 400
                      (Some (''Bad request version ('' @ repr pf version @ '')'')) None h2)
               | Some vn \<Rightarrow>
                   (let h3 = (if tuple_ge vn (1, 1) \<and> str_le ''HTTP/1.1'' protocol_version
                              then h2\<lparr>close_connection := False\<rparr> else h2)
                    in if tuple_ge vn (2, 0) then
                         (False, send_error pf 505
                            (Some (''Invalid HTTP version ('' @ the (split1_tail CHR ''/'' version) @ '')''))
                            None h3)
                       else parse_request_words pf hi words (h3\<lparr>request_version := version\<rparr>)))
         else parse_request_words pf hi words h2)"

text \<open>
  \<^verbatim>\<open>handle_one_request\<close>. The handler object has the methods \<^verbatim>\<open>do_GET\<close> and
  \<^verbatim>\<open>do_HEAD\<close> and no other attribute whose name starts with \<^verbatim>\<open>do_\<close>. A
  \<^verbatim>\<open>TimeoutError\<close> is caught and logged; any other exception leaves the method.
\<close>

definition handle_one_request :: "platform \<Rightarrow> filesystem \<Rightarrow> read_result \<Rightarrow> handler \<Rightarrow> exn + handler" where
  "handle_one_request pf fs rd h =
     (case rd of
        ReadError (TimeoutError r) \<Rightarrow>
          Inr ((log_error pf (''Request timed out: '' @ r) h)\<lparr>close_connection := True\<rparr>)
      | ReadError e \<Rightarrow> Inl e
      | Line raw hi \<Rightarrow>
          (let h1 = h\<lparr>raw_requestline := raw\<rparr>
           in if 65536 < length raw then
                Inr (send_error pf 414 None None
                       (h1\<lparr>requestline := [], request_version := [], command := Some []\<rparr>))
              else if raw = [] then Inr (h1\<lparr>close_connection := True\<rparr>)
              else
                (case parse_request pf hi h1 of
                   (False, h2) \<Rightarrow> Inr h2
                 | (True, h2) \<Rightarrow>
                     if command h2 = Some ''GET'' then do_GET pf fs h2
                     else if command h2 = Some ''HEAD'' then do_HEAD pf fs h2
                     else Inr (send_error pf 501
                                 (Some (''Unsupported method ('' @ repr pf (the (command h2)) @ '')''))
                                 None h2))))"

text \<open>
  \<^verbatim>\<open>handle\<close>: \<^verbatim>\<open>handle_one_request\<close>, again while \<^verbatim>\<open>close_connection\<close> is false. The
  reads of the connection are a list; after its last element the stream is at
  its end, where \<^verbatim>\<open>readline\<close> returns no bytes and \<^verbatim>\<open>handle_one_request\<close> sets
  \<^verbatim>\<open>close_connection\<close>.
\<close>

fun handle :: "platform \<Rightarrow> filesystem \<Rightarrow> read_result list \<Rightarrow> handler \<Rightarrow> exn + handler" where
  "handle pf fs [] h = handle_one_request pf fs (Line [] (Parsed [])) (h\<lparr>close_connection := True\<rparr>)"
| "handle pf fs (rd # rds) h =
     (case handle_one_request pf fs rd h of
        Inl e \<Rightarrow> Inl e
      | Inr h' \<Rightarrow> if close_connection h' then Inr h' else handle pf fs rds h')"

text \<open>
  The constructor of the handler (\<^verbatim>\<open>SimpleHTTPRequestHandler.__init__\<close>, down to
  \<^verbatim>\<open>BaseRequestHandler.__init__\<close>): the root directory is the current directory,
  and \<^verbatim>\<open>setup\<close>, \<^verbatim>\<open>handle\<close> and \<^verbatim>\<open>finish\<close> run. The attributes that \<^verbatim>\<open>parse_request\<close>
  sets later start empty.
\<close>

definition new_handler :: "platform \<Rightarrow> string \<times> nat \<Rightarrow> handler" where
  "new_handler pf addr =
     \<lparr>client_address = addr, directory = getcwd pf, raw_requestline = [], requestline = [],
      request_version = [], command = None, path = [], headers = [],
      close_connection = True, headers_buffer = None, wfile = [], stderr = []\<rparr>"

definition WASMHandler :: "platform \<Rightarrow> filesystem \<Rightarrow> string \<times> nat \<Rightarrow> read_result list \<Rightarrow> exn + handler" where
  "WASMHandler pf fs addr reads = handle pf fs reads (new_handler pf addr)"

subsection \<open>The server: \<^verbatim>\<open>socketserver.TCPServer\<close>\<close>

text \<open>
  The process: what it has written to standard output and standard error, the
  file system, the port of its listening socket, and for every connection it
  has handled the address of the peer and the bytes sent to it.
\<close>

record process =
  sys_stdout :: string
  sys_stderr :: string
  files :: filesystem
  listening :: "int option"
  replies :: "((string \<times> nat) \<times> string) list"

text \<open>
  What arrives while \<^verbatim>\<open>serve_forever\<close> runs: a connection with the address of
  the peer and what the handler will read from it, an \<^verbatim>\<open>accept\<close> that raises an
  \<^verbatim>\<open>OSError\<close>, or an interrupt from the keyboard while the loop waits.
\<close>

record connection =
  peer :: "string \<times> nat"
  reads :: "read_result list"

datatype event =
    Connection connection
  | AcceptError
  | Interrupt

text \<open>
  \<^verbatim>\<open>TCPServer.__init__\<close> with \<^verbatim>\<open>server_bind\<close> and \<^verbatim>\<open>server_activate\<close>. \<^verbatim>\<open>socket.bind\<close>
  raises an \<^verbatim>\<open>OverflowError\<close> for a port outside 0 to 65535 before it asks the
  operating system. On an exception the socket is closed and the exception
  raised again.
\<close>

definition server_bind :: "platform \<Rightarrow> int \<Rightarrow> exn + int" where
  "server_bind pf port =
     (if port < 0 \<or> 65535 < port then Inl OverflowError else os_bind pf port)"

definition TCPServer :: "platform \<Rightarrow> int \<Rightarrow> process \<Rightarrow> exn + process" where
  "TCPServer pf port pr =
     (case server_bind pf port of
        Inl e \<Rightarrow> Inl e
      | Inr bound \<Rightarrow>
          (case os_listen pf of
             Some e \<Rightarrow> Inl e
           | None \<Rightarrow> Inr (pr\<lparr>listening := Some bound\<rparr>)))"

definition server_close :: "process \<Rightarrow> process" where
  "server_close pr = pr\<lparr>listening := None\<rparr>"

text \<open>\<^verbatim>\<open>traceback.print_exc\<close>, also what the interpreter prints for an exception
  that nothing catches.\<close>

definition print_exc :: "platform \<Rightarrow> exn \<Rightarrow> string" where
  "print_exc pf e =
     ''Traceback (most recent call last):'' @ LF @ format_tb pf e
       @ exn_name e @ exn_message pf e @ LF"

definition handle_error :: "platform \<Rightarrow> string \<times> nat \<Rightarrow> exn \<Rightarrow> process \<Rightarrow> process" where
  "handle_error pf addr e pr =
     pr\<lparr>sys_stderr := sys_stderr pr @ replicate 40 CHR ''-'' @ LF
          @ ''Exception occurred during processing of request from (''
          @ repr pf (fst addr) @ '', '' @ py_str (int (snd addr)) @ '')'' @ LF
          @ print_exc pf e @ replicate 40 CHR ''-'' @ LF\<rparr>"

text \<open>
  \<^verbatim>\<open>_handle_request_noblock\<close> with \<^verbatim>\<open>process_request\<close> and \<^verbatim>\<open>finish_request\<close>: an
  \<^verbatim>\<open>OSError\<close> of \<^verbatim>\<open>accept\<close> is ignored; the handler is built and runs; an exception
  of class \<^verbatim>\<open>Exception\<close> is reported by \<^verbatim>\<open>handle_error\<close>, any other is raised again;
  the connection is shut down in every case. A handler that raises has written
  nothing to its socket or to the log: it raises at a read or at \<^verbatim>\<open>open\<close>, before
  the response starts.
\<close>

definition handle_request_noblock :: "platform \<Rightarrow> event \<Rightarrow> process \<Rightarrow> (exn \<times> process) + process" where
  "handle_request_noblock pf ev pr =
     (case ev of
        AcceptError \<Rightarrow> Inr pr
      | Interrupt \<Rightarrow> Inl (KeyboardInterrupt, pr)
      | Connection c \<Rightarrow>
          (case WASMHandler pf (files pr) (peer c) (reads c) of
             Inr h \<Rightarrow>
               Inr (pr\<lparr>sys_stderr := sys_stderr pr @ stderr h,
                        replies := replies pr @ [(peer c, wfile h)]\<rparr>)
           | Inl e \<Rightarrow>
               if is_Exception e
               then Inr ((handle_error pf (peer c) e pr)\<lparr>replies := replies pr @ [(peer c, [])]\<rparr>)
               else Inl (e, pr\<lparr>replies := replies pr @ [(peer c, [])]\<rparr>)))"

text \<open>
  \<^verbatim>\<open>serve_forever\<close>: the loop has no end of its own. It is run here over the
  events that arrive, in their order; when they are used up the loop is still
  waiting, which is the result \<open>Inr\<close>. An exception leaves the loop.
\<close>

fun serve_forever :: "platform \<Rightarrow> event list \<Rightarrow> process \<Rightarrow> (exn \<times> process) + process" where
  "serve_forever pf [] pr = Inr pr"
| "serve_forever pf (ev # evs) pr =
     (case handle_request_noblock pf ev pr of
        Inl x \<Rightarrow> Inl x
      | Inr pr' \<Rightarrow> serve_forever pf evs pr')"

subsection \<open>The main block\<close>

text \<open>
  Lines 22 to 28 of the program:
  \<^verbatim>\<open>
  if __name__ == "__main__":
      port = int(sys.argv[1]) if len(sys.argv) > 1 else 8000
      with socketserver.TCPServer(("", port), WASMHandler) as httpd:
          print(f"... Serving at http://localhost:{port}")
          print(f"... WASM files will be served with proper application/wasm MIME type")
          httpd.serve_forever()
  \<close>
  Each of the two lines starts with an emoji (U+1F310 and U+1F4E6), written here
  as its bytes in UTF-8. Leaving the \<^verbatim>\<open>with\<close> block closes the server.
\<close>

definition print :: "platform \<Rightarrow> string \<Rightarrow> process \<Rightarrow> (exn \<times> process) + process" where
  "print pf line pr =
     (case print_error pf of
        Some e \<Rightarrow> Inl (e, pr)
      | None \<Rightarrow> Inr (pr\<lparr>sys_stdout := sys_stdout pr @ line @ LF\<rparr>))"

definition serving_line :: "int \<Rightarrow> string" where
  "serving_line port =
     [CHR 0xF0, CHR 0x9F, CHR 0x8C, CHR 0x90] @ '' Serving at http://localhost:'' @ py_str port"

definition wasm_line :: string where
  "wasm_line =
     [CHR 0xF0, CHR 0x9F, CHR 0x93, CHR 0xA6]
       @ '' WASM files will be served with proper application/wasm MIME type''"

definition argv_port :: "platform \<Rightarrow> string list \<Rightarrow> exn + int" where
  "argv_port pf argv =
     (if 1 < length argv then py_int (int_max_str_digits pf) (argv ! 1) else Inr 8000)"

definition with_httpd :: "platform \<Rightarrow> int \<Rightarrow> event list \<Rightarrow> process \<Rightarrow> (exn \<times> process) + process" where
  "with_httpd pf port events pr =
     (case print pf (serving_line port) pr of
        Inl x \<Rightarrow> Inl x
      | Inr pr1 \<Rightarrow>
          (case print pf wasm_line pr1 of
             Inl x \<Rightarrow> Inl x
           | Inr pr2 \<Rightarrow> serve_forever pf events pr2))"

definition main :: "platform \<Rightarrow> string list \<Rightarrow> event list \<Rightarrow> process \<Rightarrow> (exn \<times> process) + process" where
  "main pf argv events pr =
     (case argv_port pf argv of
        Inl e \<Rightarrow> Inl (e, pr)
      | Inr port \<Rightarrow>
          (case TCPServer pf port pr of
             Inl e \<Rightarrow> Inl (e, pr)
           | Inr pr1 \<Rightarrow>
               (case with_httpd pf port events pr1 of
                  Inl x \<Rightarrow> Inl (fst x, server_close (snd x))
                | Inr pr2 \<Rightarrow> Inr pr2)))"

text \<open>
  The interpreter around the program: an exception that leaves the main block is
  printed on standard error as a traceback and the process ends, with status 1,
  or as killed by the interrupt signal (130 for a shell) after a
  \<^verbatim>\<open>KeyboardInterrupt\<close>.
\<close>

datatype status =
    Serving
  | Exited nat

definition python3 :: "platform \<Rightarrow> string list \<Rightarrow> event list \<Rightarrow> process \<Rightarrow> status \<times> process" where
  "python3 pf argv events pr =
     (case main pf argv events pr of
        Inr pr' \<Rightarrow> (Serving, pr')
      | Inl x \<Rightarrow>
          (Exited (if fst x = KeyboardInterrupt then 130 else 1),
           (snd x)\<lparr>sys_stderr := sys_stderr (snd x) @ print_exc pf (fst x)\<rparr>))"

text \<open>The process at its start: nothing written, no socket.\<close>

definition start :: "filesystem \<Rightarrow> process" where
  "start fs = \<lparr>sys_stdout = [], sys_stderr = [], files = fs, listening = None, replies = []\<rparr>"

subsection \<open>An example installation\<close>

text \<open>
  A platform and a directory tree for the concrete runs below: the root
  \<^verbatim>\<open>/srv/www\<close> holds \<^verbatim>\<open>module.wasm\<close> (three bytes), \<^verbatim>\<open>App.WASM\<close>, \<^verbatim>\<open>index.html\<close>, a
  subdirectory and a directory that cannot be listed; the table of the system
  knows \<^verbatim>\<open>.html\<close>; port 8080 is taken.
  The functions of the library that are parameters are replaced by simple ones.
\<close>

definition example_platform :: platform where
  "example_platform =
     \<lparr>int_max_str_digits = 4300,
      getcwd = ''/srv/www'',
      types_map_init = map_of [(''.html'', ''text/html'')],
      guess_url = (\<lambda>u. None),
      unquote_escaped = (\<lambda>s. s),
      urlsplit_redirect = (\<lambda>p. Some (p, p @ ''/'')),
      repr = (\<lambda>s. [CHR 0x27] @ s @ [CHR 0x27]),
      sys_version = ''Python/3.11.10'',
      date_time_string = (\<lambda>t. ''Thu, 01 Jan 1970 00:00:00 GMT''),
      log_date_time_string = ''01/Jan/1970 00:00:00'',
      parsedate_to_datetime = (\<lambda>s. if s = ''Fri, 01 Jan 2038 00:00:00 GMT''
                                    then AwareUTC 2145916800 else IllFormed),
      error_page = (\<lambda>code message explain. ''<h1>'' @ message @ ''</h1>''),
      listing_page = (\<lambda>p q names. concat names),
      getfilesystemencoding = ''utf-8'',
      os_bind = (\<lambda>port. if port = 8080 then Inl OSError else Inr port),
      os_listen = None,
      print_error = None,
      format_tb = (\<lambda>e. []),
      exn_message = (\<lambda>e. [])\<rparr>"

definition example_files :: filesystem where
  "example_files = map_of
     [(''/srv/www'',
         Directory (Some [''module.wasm'', ''App.WASM'', ''index.html'', ''sub'', ''private''])),
      (''/srv/www/'',
         Directory (Some [''module.wasm'', ''App.WASM'', ''index.html'', ''sub'', ''private''])),
      (''/srv/www/module.wasm'', Regular (Some \<lparr>content = ''abc'', st_mtime = 1000\<rparr>)),
      (''/srv/www/App.WASM'', Regular (Some \<lparr>content = ''xyz'', st_mtime = 1000\<rparr>)),
      (''/srv/www/index.html'', Regular (Some \<lparr>content = ''<p>hi</p>'', st_mtime = 1000\<rparr>)),
      (''/srv/www/sub'', Directory (Some [])),
      (''/srv/www/sub/'', Directory (Some [])),
      (''/srv/www/private'', Directory None),
      (''/srv/www/private/'', Directory None)]"

definition example_peer :: "string \<times> nat" where
  "example_peer = (''127.0.0.1'', 50000)"


section \<open>What a response looks like\<close>

subsection \<open>The fields of the handler after each method\<close>

lemma the_buffer_update [simp]:
  "the_buffer (h\<lparr>headers_buffer := Some b\<rparr>) = b"
  "the_buffer (h\<lparr>client_address := a\<rparr>) = the_buffer h"
  "the_buffer (h\<lparr>directory := d\<rparr>) = the_buffer h"
  "the_buffer (h\<lparr>raw_requestline := r\<rparr>) = the_buffer h"
  "the_buffer (h\<lparr>requestline := r\<rparr>) = the_buffer h"
  "the_buffer (h\<lparr>request_version := v\<rparr>) = the_buffer h"
  "the_buffer (h\<lparr>command := c\<rparr>) = the_buffer h"
  "the_buffer (h\<lparr>path := p\<rparr>) = the_buffer h"
  "the_buffer (h\<lparr>headers := hs\<rparr>) = the_buffer h"
  "the_buffer (h\<lparr>close_connection := cc\<rparr>) = the_buffer h"
  "the_buffer (h\<lparr>wfile := w\<rparr>) = the_buffer h"
  "the_buffer (h\<lparr>stderr := e\<rparr>) = the_buffer h"
  by (simp_all add: the_buffer_def)

lemma log_message_fields [simp]:
  "wfile (log_message pf m h) = wfile h"
  "the_buffer (log_message pf m h) = the_buffer h"
  "request_version (log_message pf m h) = request_version h"
  "close_connection (log_message pf m h) = close_connection h"
  "command (log_message pf m h) = command h"
  "path (log_message pf m h) = path h"
  "headers (log_message pf m h) = headers h"
  "directory (log_message pf m h) = directory h"
  "requestline (log_message pf m h) = requestline h"
  "client_address (log_message pf m h) = client_address h"
  by (simp_all add: log_message_def)

lemma send_response_only_fields [simp]:
  "wfile (send_response_only c m h) = wfile h"
  "stderr (send_response_only c m h) = stderr h"
  "request_version (send_response_only c m h) = request_version h"
  "close_connection (send_response_only c m h) = close_connection h"
  "command (send_response_only c m h) = command h"
  "path (send_response_only c m h) = path h"
  "headers (send_response_only c m h) = headers h"
  "directory (send_response_only c m h) = directory h"
  "requestline (send_response_only c m h) = requestline h"
  "client_address (send_response_only c m h) = client_address h"
  by (simp_all add: send_response_only_def Let_def)

lemma send_header_fields [simp]:
  "wfile (send_header k v h) = wfile h"
  "stderr (send_header k v h) = stderr h"
  "request_version (send_header k v h) = request_version h"
  "command (send_header k v h) = command h"
  "path (send_header k v h) = path h"
  "headers (send_header k v h) = headers h"
  "directory (send_header k v h) = directory h"
  "requestline (send_header k v h) = requestline h"
  "client_address (send_header k v h) = client_address h"
  by (simp_all add: send_header_def Let_def)

lemma send_header_buffer:
  "the_buffer (send_header k v h) =
     (if request_version h \<noteq> ''HTTP/0.9'' then the_buffer h @ [header_line k v] else the_buffer h)"
  by (simp add: send_header_def Let_def)

lemma lower_length [simp]: "length (lower s) = length s"
  by (simp add: lower_def)

lemma lower_not_connection: "length k \<noteq> 10 \<Longrightarrow> lower k \<noteq> ''connection''"
proof
  assume n: "length k \<noteq> 10" and e: "lower k = ''connection''"
  have "length (lower k) = 10" unfolding e by simp
  with n show False by simp
qed

lemma send_header_close_other:
  "length k \<noteq> 10 \<Longrightarrow> close_connection (send_header k v h) = close_connection h"
  by (simp add: send_header_def Let_def lower_not_connection)


lemma lower_Connection: "lower ''Connection'' = ''connection''"
  by code_simp

lemma lower_close: "lower ''close'' = ''close''"
  by code_simp

lemma send_header_close_connection:
  "close_connection (send_header ''Connection'' ''close'' h) = True"
  by (simp add: send_header_def Let_def lower_Connection lower_close)

definition COEP_line :: string where
  "COEP_line = header_line ''Cross-Origin-Embedder-Policy'' ''require-corp''"

definition COOP_line :: string where
  "COOP_line = header_line ''Cross-Origin-Opener-Policy'' ''same-origin''"

lemma flush_headers_fields [simp]:
  "wfile (flush_headers h) = wfile h @ concat (the_buffer h)"
  "the_buffer (flush_headers h) = []"
  "stderr (flush_headers h) = stderr h"
  "request_version (flush_headers h) = request_version h"
  "close_connection (flush_headers h) = close_connection h"
  "command (flush_headers h) = command h"
  by (simp_all add: flush_headers_def the_buffer_def split: option.splits)

lemma WASMHandler_end_headers_fields [simp]:
  "stderr (WASMHandler_end_headers h) = stderr h"
  "request_version (WASMHandler_end_headers h) = request_version h"
  "close_connection (WASMHandler_end_headers h) = close_connection h"
  "command (WASMHandler_end_headers h) = command h"
  by (simp_all add: WASMHandler_end_headers_def BaseHTTPRequestHandler_end_headers_def
        send_header_close_other)

lemma WASMHandler_end_headers_wfile:
  "wfile (WASMHandler_end_headers h) =
     (if request_version h \<noteq> ''HTTP/0.9''
      then wfile h @ concat (the_buffer h) @ COEP_line @ COOP_line @ CRLF
      else wfile h)"
  by (simp add: WASMHandler_end_headers_def BaseHTTPRequestHandler_end_headers_def
        send_header_buffer COEP_line_def COOP_line_def)

lemma WASMHandler_end_headers_buffer:
  "the_buffer (WASMHandler_end_headers h) =
     (if request_version h \<noteq> ''HTTP/0.9'' then [] else the_buffer h)"
  by (simp add: WASMHandler_end_headers_def BaseHTTPRequestHandler_end_headers_def
        send_header_buffer)

definition reason :: "nat \<Rightarrow> string option \<Rightarrow> string" where
  "reason code message =
     (case message of
        Some m \<Rightarrow> m
      | None \<Rightarrow> (case responses code of Some r \<Rightarrow> fst r | None \<Rightarrow> []))"

definition response_head :: "platform \<Rightarrow> nat \<Rightarrow> string option \<Rightarrow> string list" where
  "response_head pf code message =
     [status_line code (reason code message),
      header_line ''Server'' (version_string pf),
      header_line ''Date'' (date_time_string pf None)]"

lemma send_response_fields [simp]:
  "wfile (send_response pf c m h) = wfile h"
  "request_version (send_response pf c m h) = request_version h"
  "close_connection (send_response pf c m h) = close_connection h"
  "command (send_response pf c m h) = command h"
  "stderr (send_response pf c m h) = stderr (log_request pf c h)"
  by (simp_all add: send_response_def send_header_close_other log_request_def)

lemma send_response_buffer:
  "the_buffer (send_response pf c m h) =
     (if request_version h \<noteq> ''HTTP/0.9'' then the_buffer h @ response_head pf c m
      else the_buffer h)"
  by (simp add: send_response_def send_header_buffer send_response_only_def Let_def
        response_head_def reason_def log_request_def)

definition error_message :: "nat \<Rightarrow> string option \<Rightarrow> string" where
  "error_message code message =
     (case message of
        None \<Rightarrow> (case responses code of Some r \<Rightarrow> fst r | None \<Rightarrow> ''???'')
      | Some m \<Rightarrow> m)"

definition error_explain :: "nat \<Rightarrow> string option \<Rightarrow> string" where
  "error_explain code explain =
     (case explain of
        None \<Rightarrow> (case responses code of Some r \<Rightarrow> snd r | None \<Rightarrow> ''???'')
      | Some e \<Rightarrow> e)"

definition has_body :: "nat \<Rightarrow> bool" where
  "has_body code = (200 \<le> code \<and> code \<noteq> 204 \<and> code \<noteq> 205 \<and> code \<noteq> 304)"

definition error_body :: "platform \<Rightarrow> nat \<Rightarrow> string option \<Rightarrow> string option \<Rightarrow> string" where
  "error_body pf code message explain =
     error_page pf code (error_message code message) (error_explain code explain)"

definition error_head :: "platform \<Rightarrow> nat \<Rightarrow> string option \<Rightarrow> string option \<Rightarrow> string list" where
  "error_head pf code message explain =
     response_head pf code (Some (error_message code message))
       @ [header_line ''Connection'' ''close'']
       @ (if has_body code
          then [header_line ''Content-Type'' error_content_type,
                header_line ''Content-Length''
                  (py_str (int (length (error_body pf code message explain))))]
          else [])"

lemma send_error_fields [simp]:
  "request_version (send_error pf c m e h) = request_version h"
  "close_connection (send_error pf c m e h) = True"
  "command (send_error pf c m e h) = command h"
  by (simp_all add: send_error_def Let_def log_error_def send_header_close_other
        send_header_close_connection)

lemma send_error_buffer:
  "the_buffer (send_error pf c m e h) =
     (if request_version h \<noteq> ''HTTP/0.9'' then [] else the_buffer h)"
  by (simp add: send_error_def Let_def log_error_def WASMHandler_end_headers_buffer
        send_header_buffer send_response_buffer)

lemma send_error_wfile:
  "wfile (send_error pf c m e h) =
     wfile h
     @ (if request_version h \<noteq> ''HTTP/0.9''
        then concat (the_buffer h) @ concat (error_head pf c m e) @ COEP_line @ COOP_line @ CRLF
        else [])
     @ (if command h \<noteq> Some ''HEAD'' \<and> has_body c then error_body pf c m e else [])"
  by (simp add: send_error_def Let_def log_error_def WASMHandler_end_headers_wfile
        send_header_buffer send_response_buffer error_head_def error_body_def
        error_message_def error_explain_def has_body_def split: option.splits)

subsection \<open>Every response of a version with headers starts with the header block\<close>

definition headed :: "string \<Rightarrow> bool" where
  "headed out =
     (\<exists>lines body. lines \<noteq> [] \<and> startswith (hd lines) ''HTTP/1.0 ''
        \<and> out = concat lines @ COEP_line @ COOP_line @ CRLF @ body)"

definition clean :: "handler \<Rightarrow> bool" where
  "clean h = (wfile h = [] \<and> the_buffer h = [])"

definition building :: "handler \<Rightarrow> bool" where
  "building h =
     (wfile h = [] \<and>
      (if request_version h = ''HTTP/0.9'' then the_buffer h = []
       else the_buffer h \<noteq> [] \<and> startswith (hd (the_buffer h)) ''HTTP/1.0 ''))"

lemma headed_intro:
  "lines \<noteq> [] \<Longrightarrow> startswith (hd lines) ''HTTP/1.0 '' \<Longrightarrow>
   headed (concat lines @ COEP_line @ COOP_line @ CRLF @ body)"
  unfolding headed_def by blast

lemma headed_append: "headed out \<Longrightarrow> headed (out @ rest)"
  unfolding headed_def by (metis append.assoc)

lemma status_line_start: "startswith (status_line code message) ''HTTP/1.0 ''"
  by (simp add: status_line_def protocol_version_def startswith_def)

lemma building_send_response:
  "clean h \<Longrightarrow> building (send_response pf c m h)"
  by (simp add: clean_def building_def send_response_buffer response_head_def status_line_start)

lemma building_send_header: "building h \<Longrightarrow> building (send_header k v h)"
  by (simp add: building_def send_header_buffer)

text \<open>What a function that answers leaves: an empty buffer and, unless the version is
  HTTP/0.9, a response that starts with a header block.\<close>

definition answered :: "handler \<Rightarrow> bool" where
  "answered h = (the_buffer h = [] \<and> (request_version h = ''HTTP/0.9'' \<or> headed (wfile h)))"

lemma answered_end_headers:
  "building h \<Longrightarrow> answered (WASMHandler_end_headers h)"
  using headed_intro [of "the_buffer h" "[]"]
  by (auto simp: building_def answered_def WASMHandler_end_headers_wfile
        WASMHandler_end_headers_buffer)

lemma answered_send_error:
  "clean h \<Longrightarrow> answered (send_error pf c m e h)"
proof -
  assume c: "clean h"
  have hd: "error_head pf c m e \<noteq> [] \<and> startswith (hd (error_head pf c m e)) ''HTTP/1.0 ''"
    by (simp add: error_head_def response_head_def status_line_start)
  have "headed (concat (error_head pf c m e) @ COEP_line @ COOP_line @ CRLF
          @ (if command h \<noteq> Some ''HEAD'' \<and> has_body c then error_body pf c m e else []))"
    using hd by (intro headed_intro) simp_all
  then show ?thesis using c
    by (simp add: send_error_wfile send_error_buffer clean_def answered_def)
qed

lemma copyfile_fields [simp]:
  "wfile (copyfile f h) = wfile h @ f"
  "the_buffer (copyfile f h) = the_buffer h"
  "stderr (copyfile f h) = stderr h"
  "request_version (copyfile f h) = request_version h"
  "close_connection (copyfile f h) = close_connection h"
  "command (copyfile f h) = command h"
  by (simp_all add: copyfile_def)

lemma answered_copyfile: "answered h \<Longrightarrow> answered (copyfile f h)"
  by (auto simp: answered_def headed_append)

lemma send_head_file_post:
  assumes "clean h" and "send_head_file pf fs p h = Inr (r, h')"
  shows "answered h' \<and> request_version h' = request_version h
         \<and> (close_connection h \<longrightarrow> close_connection h')"
  using assms
  by (auto simp: send_head_file_def Let_def answered_send_error answered_end_headers
        building_send_header building_send_response send_header_close_other
        split: if_splits sum.splits)

lemma list_directory_post:
  assumes "clean h" and "list_directory pf fs p h = Inr (r, h')"
  shows "answered h' \<and> request_version h' = request_version h
         \<and> (close_connection h \<longrightarrow> close_connection h')"
  using assms
  by (auto simp: list_directory_def Let_def answered_send_error answered_end_headers
        building_send_header building_send_response send_header_close_other
        split: if_splits sum.splits)

lemma send_head_post:
  assumes "clean h" and "send_head pf fs h = Inr (r, h')"
  shows "answered h' \<and> request_version h' = request_version h
         \<and> (close_connection h \<longrightarrow> close_connection h')"
proof -
  have redirect: "\<And>parts. answered (WASMHandler_end_headers (send_header ''Content-Length'' ''0''
       (send_header ''Location'' (snd parts) (send_response pf 301 None h))))"
    using assms(1)
    by (intro answered_end_headers building_send_header building_send_response)
  show ?thesis
    using assms send_head_file_post [OF assms(1)] list_directory_post [OF assms(1)] redirect
    by (auto simp: send_head_def Let_def send_header_close_other
          split: if_splits option.splits)
qed

lemma do_GET_post:
  assumes "clean h" and "do_GET pf fs h = Inr h'"
  shows "answered h' \<and> request_version h' = request_version h
         \<and> (close_connection h \<longrightarrow> close_connection h')"
  using assms send_head_post [OF assms(1)]
  by (auto simp: do_GET_def answered_copyfile
        split: sum.splits option.splits prod.splits)

lemma do_HEAD_post:
  assumes "clean h" and "do_HEAD pf fs h = Inr h'"
  shows "answered h' \<and> request_version h' = request_version h
         \<and> (close_connection h \<longrightarrow> close_connection h')"
  using assms send_head_post [OF assms(1)]
  by (auto simp: do_HEAD_def split: sum.splits prod.splits)

lemma protocol_below_11: "str_le ''HTTP/1.1'' protocol_version = False"
  by (simp add: protocol_version_def)

lemma parse_request_headers_post:
  assumes "clean h" and "close_connection h"
    and "parse_request_headers pf hi h = (b, h')"
  shows "(clean h' \<or> answered h') \<and> (b \<longrightarrow> clean h') \<and> close_connection h'"
  using assms answered_send_error [of h pf 431]
  by (auto simp: parse_request_headers_def Let_def protocol_below_11 clean_def
        split: header_input.splits if_splits)

lemma parse_request_words_post:
  assumes "clean h" and "close_connection h"
    and "parse_request_words pf hi ws h = (b, h')"
  shows "(clean h' \<or> answered h') \<and> (b \<longrightarrow> clean h') \<and> close_connection h'"
proof (cases "2 \<le> length ws \<and> length ws \<le> 3")
  case False
  then show ?thesis
    using assms answered_send_error [of h pf 400]
    by (auto simp: parse_request_words_def)
next
  case True
  show ?thesis
  proof (cases "length ws = 2 \<and> ws ! 0 \<noteq> ''GET''")
    case bad: True
    have "clean (h\<lparr>close_connection := True\<rparr>)"
      using assms(1) by (simp add: clean_def)
    from answered_send_error [OF this, of pf 400] show ?thesis
      using assms True bad by (auto simp: parse_request_words_def Let_def)
  next
    case ok: False
    let ?h1 = "if length ws = 2 then h\<lparr>close_connection := True\<rparr> else h"
    let ?h2 = "?h1\<lparr>command := Some (ws ! 0), path := collapse_slashes (ws ! 1)\<rparr>"
    have c: "clean ?h2" "close_connection ?h2"
      using assms(1,2) by (simp_all add: clean_def)
    have "parse_request_headers pf hi ?h2 = (b, h')"
      using assms(3) True ok by (simp add: parse_request_words_def Let_def)
    from parse_request_headers_post [OF c this] show ?thesis .
  qed
qed

lemma parse_request_post:
  assumes "clean h" and "parse_request pf hi h = (b, h')"
  shows "(clean h' \<or> answered h') \<and> (b \<longrightarrow> clean h') \<and> close_connection h'"
proof -
  let ?h2 = "h\<lparr>command := None, request_version := ''HTTP/0.9'', close_connection := True,
                requestline := rstrip_chars CRLF (raw_requestline h)\<rparr>"
  let ?ws = "split_ws (rstrip_chars CRLF (raw_requestline h))"
  have c2: "clean ?h2" "close_connection ?h2"
    using assms(1) by (simp_all add: clean_def)
  show ?thesis
  proof (cases "length ?ws = 0")
    case True
    then show ?thesis using assms c2 by (auto simp: parse_request_def Let_def)
  next
    case ne: False
    show ?thesis
    proof (cases "3 \<le> length ?ws")
      case False
      then have "parse_request_words pf hi ?ws ?h2 = (b, h')"
        using assms(2) ne by (simp add: parse_request_def Let_def)
      from parse_request_words_post [OF c2 this] show ?thesis .
    next
      case three: True
      show ?thesis
      proof (cases "version_number pf (last ?ws)")
        case None
        then show ?thesis
          using assms(2) ne three answered_send_error [OF c2(1), of pf 400]
          by (auto simp: parse_request_def Let_def)
      next
        case (Some vn)
        show ?thesis
        proof (cases "tuple_ge vn (2, 0)")
          case True
          then show ?thesis
            using assms(2) ne three Some answered_send_error [OF c2(1), of pf 505]
            by (auto simp: parse_request_def Let_def protocol_below_11)
        next
          case False
          let ?h3 = "?h2\<lparr>request_version := last ?ws\<rparr>"
          have c3: "clean ?h3" "close_connection ?h3"
            using assms(1) by (simp_all add: clean_def)
          have "parse_request_words pf hi ?ws ?h3 = (b, h')"
            using assms(2) ne three Some False
            by (simp add: parse_request_def Let_def protocol_below_11)
          from parse_request_words_post [OF c3 this] show ?thesis .
        qed
      qed
    qed
  qed
qed

lemma handle_one_request_post:
  assumes "clean h" and "handle_one_request pf fs rd h = Inr h'"
  shows "(clean h' \<or> answered h') \<and> close_connection h'"
proof (cases rd)
  case (ReadError e)
  then show ?thesis
    using assms by (cases e) (auto simp: handle_one_request_def log_error_def clean_def)
next
  case (Line raw hi)
  let ?h1 = "h\<lparr>raw_requestline := raw\<rparr>"
  have c1: "clean ?h1" using assms(1) by (simp add: clean_def)
  show ?thesis
  proof (cases "65536 < length raw")
    case True
    have "clean (?h1\<lparr>requestline := [], request_version := [], command := Some []\<rparr>)"
      using assms(1) by (simp add: clean_def)
    from answered_send_error [OF this, of pf 414] show ?thesis
      using assms(2) Line True by (auto simp: handle_one_request_def Let_def)
  next
    case short: False
    show ?thesis
    proof (cases "raw = []")
      case True
      then show ?thesis
        using assms Line short by (auto simp: handle_one_request_def Let_def clean_def)
    next
      case ne: False
      obtain b h2 where p: "parse_request pf hi ?h1 = (b, h2)"
        by (cases "parse_request pf hi ?h1") auto
      note pp = parse_request_post [OF c1 p]
      show ?thesis
      proof (cases b)
        case False
        then show ?thesis
          using assms(2) Line short ne p pp by (simp add: handle_one_request_def Let_def)
      next
        case True
        then have c2: "clean h2" "close_connection h2" using pp by auto
        show ?thesis
          using assms(2) Line short ne p True c2
            do_GET_post [OF c2(1), of pf fs h'] do_HEAD_post [OF c2(1), of pf fs h']
            answered_send_error [OF c2(1), of pf 501]
          by (auto simp: handle_one_request_def Let_def split: if_splits)
      qed
    qed
  qed
qed


lemma clean_new_handler: "clean (new_handler pf addr)"
  by (simp add: clean_def new_handler_def the_buffer_def)


subsection \<open>The course of a request\<close>

text \<open>The handler after \<^verbatim>\<open>parse_request\<close> has accepted a request line.\<close>

definition parsed :: "string \<Rightarrow> string \<Rightarrow> string \<Rightarrow> string \<Rightarrow> (string \<times> string) list \<Rightarrow> handler \<Rightarrow> handler" where
  "parsed raw cmd p ver hs h =
     h\<lparr>raw_requestline := raw, requestline := rstrip_chars CRLF raw, request_version := ver,
       command := Some cmd, path := collapse_slashes p, headers := hs,
       close_connection := True\<rparr>"

lemma parsed_fields [simp]:
  "wfile (parsed raw cmd p ver hs h) = wfile h"
  "the_buffer (parsed raw cmd p ver hs h) = the_buffer h"
  "stderr (parsed raw cmd p ver hs h) = stderr h"
  "request_version (parsed raw cmd p ver hs h) = ver"
  "command (parsed raw cmd p ver hs h) = Some cmd"
  "path (parsed raw cmd p ver hs h) = collapse_slashes p"
  "headers (parsed raw cmd p ver hs h) = hs"
  "directory (parsed raw cmd p ver hs h) = directory h"
  "close_connection (parsed raw cmd p ver hs h) = True"
  "requestline (parsed raw cmd p ver hs h) = rstrip_chars CRLF raw"
  "client_address (parsed raw cmd p ver hs h) = client_address h"
  by (simp_all add: parsed_def)

lemma parse_request_headers_Parsed:
  "close_connection h \<Longrightarrow>
   parse_request_headers pf (Parsed hs) h = (True, h\<lparr>headers := hs\<rparr>)"
  by (simp add: parse_request_headers_def Let_def protocol_below_11)

lemma parse_request_three:
  assumes "split_ws (rstrip_chars CRLF raw) = [cmd, p, ver]"
    and "version_number pf ver = Some vn" and "\<not> tuple_ge vn (2, 0)"
  shows "parse_request pf (Parsed hs) (h\<lparr>raw_requestline := raw\<rparr>)
         = (True, parsed raw cmd p ver hs h)"
  using assms
  by (simp add: parse_request_def parse_request_words_def Let_def protocol_below_11
        parse_request_headers_Parsed parsed_def)


lemma split_ws_Nil_raw: "split_ws (rstrip_chars CRLF raw) \<noteq> [] \<Longrightarrow> raw \<noteq> []"
  by (auto simp: rstrip_chars_def)

lemma handle_closed:
  "handle_one_request pf fs rd (new_handler pf addr) = r \<Longrightarrow>
   WASMHandler pf fs addr (rd # rds) = r"
proof -
  assume a: "handle_one_request pf fs rd (new_handler pf addr) = r"
  show ?thesis
  proof (cases r)
    case (Inl e)
    then show ?thesis using a by (simp add: WASMHandler_def)
  next
    case (Inr h')
    with a handle_one_request_post [OF clean_new_handler, of pf fs rd pf addr h']
    have "close_connection h'" by simp
    then show ?thesis using a Inr by (simp add: WASMHandler_def)
  qed
qed

lemma handle_one_request_GET3:
  assumes "length raw \<le> 65536"
    and "split_ws (rstrip_chars CRLF raw) = [''GET'', p, ver]"
    and "version_number pf ver = Some vn" and "\<not> tuple_ge vn (2, 0)"
  shows "handle_one_request pf fs (Line raw (Parsed hs)) h
         = do_GET pf fs (parsed raw ''GET'' p ver hs h)"
proof -
  have "raw \<noteq> []" using assms(2) split_ws_Nil_raw [of raw] by simp
  then show ?thesis
    using assms(1) parse_request_three [OF assms(2,3,4), of hs h]
    by (simp add: handle_one_request_def Let_def)
qed


lemma handle_one_request_other3:
  assumes "length raw \<le> 65536"
    and "split_ws (rstrip_chars CRLF raw) = [cmd, p, ver]"
    and "version_number pf ver = Some vn" and "\<not> tuple_ge vn (2, 0)"
    and "cmd \<noteq> ''GET''" and "cmd \<noteq> ''HEAD''"
  shows "handle_one_request pf fs (Line raw (Parsed hs)) h
         = Inr (send_error pf 501 (Some (''Unsupported method ('' @ repr pf cmd @ '')'')) None
                  (parsed raw cmd p ver hs h))"
proof -
  have "raw \<noteq> []" using assms(2) split_ws_Nil_raw [of raw] by simp
  then show ?thesis
    using assms(1,5,6) parse_request_three [OF assms(2,3,4), of hs h]
    by (simp add: handle_one_request_def Let_def)
qed



lemma do_GET_file:
  assumes "translate_path pf (directory h) (path h) = q" and "\<not> isdir fs q"
  shows "do_GET pf fs h =
           (case send_head_file pf fs q h of
              Inl e \<Rightarrow> Inl e
            | Inr (None, h') \<Rightarrow> Inr h'
            | Inr (Some f, h') \<Rightarrow> Inr (copyfile f h'))"
  using assms by (simp add: do_GET_def send_head_def Let_def)

lemma send_head_file_200:
  assumes "\<not> endswith q ''/''" and "py_open fs q = Inr f"
    and "\<not> not_modified pf (headers h) (st_mtime f)"
  shows "send_head_file pf fs q h =
           Inr (Some (content f),
                WASMHandler_end_headers
                  (send_header ''Last-Modified'' (date_time_string pf (Some (st_mtime f)))
                    (send_header ''Content-Length'' (py_str (int (length (content f))))
                      (send_header ''Content-type'' (guess_type pf q)
                        (send_response pf 200 None h)))))"
  using assms by (simp add: send_head_file_def Let_def)



section \<open>Paths stay under the root directory\<close>

text \<open>
  A simple name is a path component that names an entry of a directory: it is not
  empty, has no slash, and is neither \<^verbatim>\<open>.\<close> nor \<^verbatim>\<open>..\<close>. A path is confined to a root
  when it is built from the root by joining simple names and adding slashes.
\<close>

definition simple_name :: "string \<Rightarrow> bool" where
  "simple_name w = (w \<noteq> [] \<and> CHR ''/'' \<notin> set w \<and> w \<noteq> ''.'' \<and> w \<noteq> ''..'')"

inductive confined :: "string \<Rightarrow> string \<Rightarrow> bool" for root :: string where
  confined_root: "confined root root"
| confined_join: "confined root q \<Longrightarrow> simple_name w \<Longrightarrow> confined root (path_join q w)"
| confined_slash: "confined root q \<Longrightarrow> confined root (q @ ''/'')"

lemma split_sep_no_sep: "w \<in> set (split_sep c s) \<Longrightarrow> c \<notin> set w"
proof (induction s arbitrary: w)
  case Nil
  then show ?case by simp
next
  case (Cons x xs)
  then show ?case
    by (cases "split_sep c xs") (auto split: if_splits)
qed

lemma dirname_no_sep: "CHR ''/'' \<notin> set w \<Longrightarrow> dirname w = []"
  by (simp add: dirname_def rfind_absent Let_def)

lemma foldl_translate_word_confined:
  assumes "confined root a" and "\<forall>w \<in> set ws. w \<noteq> [] \<and> CHR ''/'' \<notin> set w"
  shows "confined root (foldl translate_word a ws)"
  using assms
proof (induction ws arbitrary: a)
  case Nil
  then show ?case by simp
next
  case (Cons w ws)
  have "confined root (translate_word a w)"
  proof (cases "w = ''.'' \<or> w = ''..''")
    case True
    then show ?thesis using Cons.prems by (auto simp: translate_word_def)
  next
    case False
    then have "simple_name w" using Cons.prems(2) by (simp add: simple_name_def)
    then show ?thesis
      using Cons.prems False by (auto simp: translate_word_def dirname_no_sep intro: confined_join)
  qed
  then show ?case using Cons by simp
qed

lemma translate_path_confined: "confined dir (translate_path pf dir p)"
proof -
  let ?ws = "filter (\<lambda>w. w \<noteq> []) (split_sep CHR ''/''
     (normpath (unquote pf (split1_head CHR ''#'' (split1_head CHR ''?'' p)))))"
  have "\<forall>w \<in> set ?ws. w \<noteq> [] \<and> CHR ''/'' \<notin> set w"
    using split_sep_no_sep by auto
  from foldl_translate_word_confined [OF confined_root this]
  show ?thesis
    by (auto simp: translate_path_def Let_def intro: confined_slash)
qed


lemma split_sep_nonempty: "split_sep c s \<noteq> []"
  by (induction s) (auto split: list.splits)

lemma split_sep_append:
  "split_sep c (xs @ c # ys) = split_sep c xs @ split_sep c ys"
proof (induction xs)
  case Nil
  then show ?case by simp
next
  case (Cons x xs)
  obtain w ws where s: "split_sep c xs = w # ws"
    using split_sep_nonempty [of c xs] by (cases "split_sep c xs") auto
  show ?case using Cons s by simp
qed

lemma split_sep_absent: "c \<notin> set w \<Longrightarrow> split_sep c w = [w]"
  by (induction w) auto

lemma simple_name_not_abs: "simple_name w \<Longrightarrow> \<not> startswith w ''/''"
  by (cases w) (auto simp: simple_name_def startswith_def)

lemma endswith_slash: "endswith q ''/'' \<longleftrightarrow> (\<exists>r. q = r @ ''/'')"
proof
  assume "endswith q ''/''"
  then have "q = take (length q - 1) q @ ''/''"
    by (simp add: endswith_def) (metis append_take_drop_id)
  then show "\<exists>r. q = r @ ''/''" ..
next
  assume "\<exists>r. q = r @ ''/''"
  then show "endswith q ''/''" by (auto simp: endswith_def)
qed

definition component_ok :: "string \<Rightarrow> bool" where
  "component_ok c = (c = [] \<or> simple_name c)"

lemma confined_shape:
  assumes "confined root q"
  shows "\<exists>rest. q = root @ rest
           \<and> (root = [] \<or> endswith root ''/'' \<or> rest = [] \<or> startswith rest ''/'')
           \<and> list_all component_ok (split_sep CHR ''/'' rest)"
  using assms
proof (induction rule: confined.induct)
  case confined_root
  show ?case by (rule exI [of _ "[]"]) (simp add: component_ok_def)
next
  case (confined_slash q)
  then obtain rest where r: "q = root @ rest"
    "root = [] \<or> endswith root ''/'' \<or> rest = [] \<or> startswith rest ''/''"
    "list_all component_ok (split_sep CHR ''/'' rest)" by blast
  have "list_all component_ok (split_sep CHR ''/'' (rest @ ''/''))"
    using r(3) split_sep_append [of "CHR ''/''" rest "[]"] by (simp add: component_ok_def)
  moreover have "root = [] \<or> endswith root ''/'' \<or> rest @ ''/'' = [] \<or> startswith (rest @ ''/'') ''/''"
    using r(2) by (cases rest) (auto simp: startswith_def)
  ultimately show ?case using r(1) by (intro exI [of _ "rest @ ''/''"]) simp
next
  case (confined_join q w)
  then obtain rest where r: "q = root @ rest"
    "root = [] \<or> endswith root ''/'' \<or> rest = [] \<or> startswith rest ''/''"
    "list_all component_ok (split_sep CHR ''/'' rest)" by blast
  have w: "CHR ''/'' \<notin> set w" "component_ok w" "\<not> startswith w ''/''"
    using confined_join.hyps(2) simple_name_not_abs
    by (auto simp: simple_name_def component_ok_def)
  show ?case
  proof (cases "q = [] \<or> endswith q ''/''")
    case False
    then have pj: "path_join q w = root @ (rest @ ''/'' @ w)"
      using w(3) r(1) by (simp add: path_join_def)
    have "list_all component_ok (split_sep CHR ''/'' (rest @ ''/'' @ w))"
      using r(3) w split_sep_append [of "CHR ''/''" rest w] by (simp add: split_sep_absent)
    moreover have "root = [] \<or> endswith root ''/'' \<or> rest @ ''/'' @ w = []
        \<or> startswith (rest @ ''/'' @ w) ''/''"
      using r(2) by (cases rest) (auto simp: startswith_def)
    ultimately show ?thesis using pj by (intro exI [of _ "rest @ ''/'' @ w"]) simp
  next
    case True
    then have pj: "path_join q w = root @ (rest @ w)"
      using w(3) r(1) by (auto simp: path_join_def)
    show ?thesis
    proof (cases "rest = []")
      case True
      then have "root = [] \<or> endswith root ''/''"
        using \<open>q = [] \<or> endswith q ''/''\<close> r(1) by auto
      then show ?thesis
        using pj True w by (intro exI [of _ "w"]) (auto simp: split_sep_absent)
    next
      case False
      then have "endswith (root @ rest) ''/''"
        using \<open>q = [] \<or> endswith q ''/''\<close> r(1) by auto
      then obtain r' where "root @ rest = r' @ ''/''" unfolding endswith_slash by blast
      with False obtain r'' where rr: "rest = r'' @ ''/''"
        by (metis append_butlast_last_id last_appendR last_snoc)
      have "list_all component_ok (split_sep CHR ''/'' r'')"
        using r(3) rr split_sep_append [of "CHR ''/''" r'' "[]"] by simp
      then have "list_all component_ok (split_sep CHR ''/'' (rest @ w))"
        using rr w split_sep_append [of "CHR ''/''" r'' w] by (simp add: split_sep_absent)
      moreover have "root = [] \<or> endswith root ''/'' \<or> rest @ w = [] \<or> startswith (rest @ w) ''/''"
        using r(2) False by (cases rest) (auto simp: startswith_def)
      ultimately show ?thesis using pj by (intro exI [of _ "rest @ w"]) simp
    qed
  qed
qed

lemma send_head_file_Some:
  "send_head_file pf fs p h = Inr (Some data, h') \<Longrightarrow>
   \<exists>f. fs p = Some (Regular (Some f)) \<and> data = content f"
  by (auto simp: send_head_file_def Let_def py_open_def
        split: if_splits sum.splits option.splits node.splits)

lemma list_directory_Some:
  "list_directory pf fs p h = Inr (Some data, h') \<Longrightarrow>
   \<exists>names. fs p = Some (Directory (Some names)) \<and> data = listing_page pf p (path h) names"
  by (auto simp: list_directory_def Let_def listdir_def
        split: if_splits sum.splits option.splits node.splits)

lemma simple_index: "simple_name ''index.html''" "simple_name ''index.htm''"
  by (simp_all add: simple_name_def)

lemma send_head_confined:
  assumes "send_head pf fs h = Inr (Some data, h')"
  shows "\<exists>q. confined (directory h) q
           \<and> ((\<exists>f. fs q = Some (Regular (Some f)) \<and> data = content f)
              \<or> (\<exists>names. fs q = Some (Directory (Some names))
                    \<and> data = listing_page pf q (path h) names))"
proof -
  let ?p = "translate_path pf (directory h) (path h)"
  have c: "confined (directory h) ?p" by (rule translate_path_confined)
  have c1: "confined (directory h) (path_join ?p ''index.html'')"
    and c2: "confined (directory h) (path_join ?p ''index.htm'')"
    using c simple_index by (auto intro: confined_join)
  from assms consider
      (plain) "send_head_file pf fs ?p h = Inr (Some data, h')"
    | (html) "send_head_file pf fs (path_join ?p ''index.html'') h = Inr (Some data, h')"
    | (htm) "send_head_file pf fs (path_join ?p ''index.htm'') h = Inr (Some data, h')"
    | (listing) "list_directory pf fs ?p h = Inr (Some data, h')"
    by (auto simp: send_head_def Let_def split: if_splits option.splits)
  then show ?thesis
  proof cases
    case plain
    from send_head_file_Some [OF this] c show ?thesis by blast
  next
    case html
    from send_head_file_Some [OF this] c1 show ?thesis by blast
  next
    case htm
    from send_head_file_Some [OF this] c2 show ?thesis by blast
  next
    case listing
    from list_directory_Some [OF this] c show ?thesis by blast
  qed
qed

section \<open>Serving files\<close>


lemma lower_Nil_iff [simp]: "lower s = [] \<longleftrightarrow> s = []"
  by (simp add: lower_def)




lemma new_handler_fields [simp]:
  "wfile (new_handler pf addr) = []"
  "the_buffer (new_handler pf addr) = []"
  "stderr (new_handler pf addr) = []"
  "directory (new_handler pf addr) = getcwd pf"
  "client_address (new_handler pf addr) = addr"
  by (simp_all add: new_handler_def the_buffer_def)









subsection \<open>Runs of the example installation\<close>

lemma example_request_lines:
  "split_ws (rstrip_chars CRLF (''GET /module.wasm HTTP/1.1'' @ CRLF))
     = [''GET'', ''/module.wasm'', ''HTTP/1.1'']"
  "split_ws (rstrip_chars CRLF (''GET /module.wasm'' @ CRLF)) = [''GET'', ''/module.wasm'']"
  "split_ws (rstrip_chars CRLF (''GET /App.WASM HTTP/1.1'' @ CRLF))
     = [''GET'', ''/App.WASM'', ''HTTP/1.1'']"
  "split_ws (rstrip_chars CRLF (''GET /missing.bin HTTP/1.1'' @ CRLF))
     = [''GET'', ''/missing.bin'', ''HTTP/1.1'']"
  "split_ws (rstrip_chars CRLF (''GET /private HTTP/1.1'' @ CRLF))
     = [''GET'', ''/private'', ''HTTP/1.1'']"
  "split_ws (rstrip_chars CRLF (''GET /../../module.wasm HTTP/1.1'' @ CRLF))
     = [''GET'', ''/../../module.wasm'', ''HTTP/1.1'']"
  by code_simp+

lemma example_version:
  "version_number example_platform ''HTTP/1.1'' = Some (1, 1)"
  "\<not> tuple_ge (1, 1) (2, 0)"
  by code_simp+

lemma example_paths:
  "translate_path example_platform (getcwd example_platform) (collapse_slashes ''/module.wasm'')
     = ''/srv/www/module.wasm''"
  "translate_path example_platform (getcwd example_platform) (collapse_slashes ''/App.WASM'')
     = ''/srv/www/App.WASM''"
  "translate_path example_platform (getcwd example_platform) (collapse_slashes ''/missing.bin'')
     = ''/srv/www/missing.bin''"
  "translate_path example_platform (getcwd example_platform) (collapse_slashes ''/private'')
     = ''/srv/www/private''"
  "translate_path example_platform (getcwd example_platform)
     (collapse_slashes ''/../../module.wasm'') = ''/srv/www/module.wasm''"
  by code_simp+

lemma example_nodes:
  "\<not> isdir example_files ''/srv/www/module.wasm''"
  "py_open example_files ''/srv/www/module.wasm'' = Inr \<lparr>content = ''abc'', st_mtime = 1000\<rparr>"
  "\<not> isdir example_files ''/srv/www/App.WASM''"
  "py_open example_files ''/srv/www/App.WASM'' = Inr \<lparr>content = ''xyz'', st_mtime = 1000\<rparr>"
  "\<not> isdir example_files ''/srv/www/missing.bin''"
  "py_open example_files ''/srv/www/missing.bin'' = Inl OSError"
  "isdir example_files ''/srv/www/private''"
  "listdir example_files ''/srv/www/private'' = Inl OSError"
  by code_simp+


section \<open>The claims about responses\<close>









text \<open>
  C3. Whatever the path of the request, with any number of \<^verbatim>\<open>../\<close> sequences,
  escaped or not: the data that \<^verbatim>\<open>send_head\<close> returns for copying to the client
  are the bytes of a regular file, or the listing of a directory, found at the
  root directory followed by path components that are empty or simple names,
  never \<^verbatim>\<open>..\<close>. (The file system resolves such a path; a symbolic link inside
  the root is followed by the operating system, not by the path of the URL.)
\<close>

theorem served_data_is_under_the_root:
  assumes "send_head pf fs h = Inr (Some data, h')"
  shows "\<exists>rest.
           (directory h = [] \<or> endswith (directory h) ''/'' \<or> rest = [] \<or> startswith rest ''/'')
           \<and> list_all component_ok (split_sep CHR ''/'' rest)
           \<and> ((\<exists>f. fs (directory h @ rest) = Some (Regular (Some f)) \<and> data = content f)
                \<or> (\<exists>names. fs (directory h @ rest) = Some (Directory (Some names))
                      \<and> data = listing_page pf (directory h @ rest) (path h) names))"
proof -
  from send_head_confined [OF assms] obtain q where q: "confined (directory h) q"
    "(\<exists>f. fs q = Some (Regular (Some f)) \<and> data = content f)
       \<or> (\<exists>names. fs q = Some (Directory (Some names))
             \<and> data = listing_page pf q (path h) names)"
    by blast
  from confined_shape [OF q(1)] obtain rest where r: "q = directory h @ rest"
    "directory h = [] \<or> endswith (directory h) ''/'' \<or> rest = [] \<or> startswith rest ''/''"
    "list_all component_ok (split_sep CHR ''/'' rest)"
    by blast
  show ?thesis using q(2) r by blast
qed

text \<open>The handler of the example installation after it has parsed the request line
  \<^verbatim>\<open>GET /../../module.wasm HTTP/1.1\<close>.\<close>

definition example_escaping_request :: handler where
  "example_escaping_request =
     parsed (''GET /../../module.wasm HTTP/1.1'' @ CRLF) ''GET'' ''/../../module.wasm''
       ''HTTP/1.1'' [] (new_handler example_platform example_peer)"

lemma send_head_plain:
  assumes "translate_path pf (directory h) (path h) = q" and "\<not> isdir fs q"
  shows "send_head pf fs h = send_head_file pf fs q h"
  using assms by (simp add: send_head_def Let_def)

theorem served_data_is_under_the_root_witness:
  "\<exists>rest.
     (directory example_escaping_request = [] \<or> endswith (directory example_escaping_request) ''/''
        \<or> rest = [] \<or> startswith rest ''/'')
     \<and> list_all component_ok (split_sep CHR ''/'' rest)
     \<and> ((\<exists>f. example_files (directory example_escaping_request @ rest) = Some (Regular (Some f))
              \<and> ''abc'' = content f)
          \<or> (\<exists>names. example_files (directory example_escaping_request @ rest)
                  = Some (Directory (Some names))
                \<and> ''abc'' = listing_page example_platform
                    (directory example_escaping_request @ rest)
                    (path example_escaping_request) names))"
proof -
  let ?h = example_escaping_request
  have q: "translate_path example_platform (directory ?h) (path ?h) = ''/srv/www/module.wasm''"
    using example_paths(5) by (simp add: example_escaping_request_def)
  have e: "\<not> endswith ''/srv/www/module.wasm'' ''/''" by (simp add: endswith_def)
  have nm: "\<not> not_modified example_platform (headers ?h)
              (st_mtime \<lparr>content = ''abc'', st_mtime = 1000\<rparr>)"
    by (simp add: not_modified_def header_get_def example_escaping_request_def)
  have "\<exists>h'. send_head example_platform example_files ?h = Inr (Some ''abc'', h')"
    by (simp add: send_head_plain [OF q example_nodes(1)]
          send_head_file_200 [OF e example_nodes(2) nm])
  then obtain h' where
    "send_head example_platform example_files ?h = Inr (Some ''abc'', h')" ..
  from served_data_is_under_the_root [OF this] show ?thesis .
qed






section \<open>The process\<close>

















text \<open>The loop never changes the file system or standard output, however it ends.\<close>

lemma handle_request_noblock_frame:
  assumes "handle_request_noblock pf ev pr = r"
  shows "(case r of Inl x \<Rightarrow> files (snd x) = files pr \<and> sys_stdout (snd x) = sys_stdout pr
                 | Inr pr' \<Rightarrow> files pr' = files pr \<and> sys_stdout pr' = sys_stdout pr)"
proof (cases ev)
  case (Connection c)
  show ?thesis
  proof (cases "WASMHandler pf (files pr) (peer c) (reads c)")
    case (Inl e)
    then show ?thesis
      using assms Connection
      by (cases "is_Exception e") (auto simp: handle_request_noblock_def handle_error_def)
  next
    case (Inr h)
    then show ?thesis
      using assms Connection by (auto simp: handle_request_noblock_def)
  qed
next
  case AcceptError
  then show ?thesis using assms by (auto simp: handle_request_noblock_def)
next
  case Interrupt
  then show ?thesis using assms by (auto simp: handle_request_noblock_def)
qed

lemma serve_forever_frame:
  assumes "serve_forever pf events pr = r"
  shows "(case r of Inl x \<Rightarrow> files (snd x) = files pr \<and> sys_stdout (snd x) = sys_stdout pr
                 | Inr pr' \<Rightarrow> files pr' = files pr \<and> sys_stdout pr' = sys_stdout pr)"
  using assms
proof (induction events arbitrary: pr r)
  case Nil
  then show ?case by auto
next
  case (Cons ev evs)
  show ?case
  proof (cases "handle_request_noblock pf ev pr")
    case (Inl x)
    with handle_request_noblock_frame [OF Inl] Cons.prems show ?thesis by auto
  next
    case (Inr pr1)
    with handle_request_noblock_frame [OF Inr] have
      f: "files pr1 = files pr" "sys_stdout pr1 = sys_stdout pr" by auto
    have "serve_forever pf evs pr1 = r" using Cons.prems Inr by simp
    from Cons.IH [OF this] show ?thesis using f by (cases r) auto
  qed
qed


lemma with_httpd_ok:
  assumes "print_error pf = None"
  shows "with_httpd pf port events pr =
           serve_forever pf events (pr\<lparr>sys_stdout := sys_stdout pr @ serving_line port @ LF
                                          @ wasm_line @ LF\<rparr>)"
  using assms by (simp add: with_httpd_def print_def)

lemma python3_started:
  assumes "argv_port pf argv = Inr port" and "TCPServer pf port (start fs) = Inr pr1"
    and "print_error pf = None"
    and "serve_forever pf events
           (pr1\<lparr>sys_stdout := sys_stdout pr1 @ serving_line port @ LF @ wasm_line @ LF\<rparr>) = Inr pr"
  shows "python3 pf argv events (start fs) = (Serving, pr)"
  using assms by (simp add: python3_def main_def with_httpd_ok)

lemma python3_failed:
  assumes "argv_port pf argv = Inl e
           \<or> (argv_port pf argv = Inr port \<and> TCPServer pf port (start fs) = Inl e)
           \<or> (argv_port pf argv = Inr port \<and> TCPServer pf port (start fs) = Inr pr1
                \<and> print_error pf = Some e)"
  shows "python3 pf argv events (start fs) =
           (Exited (if e = KeyboardInterrupt then 130 else 1),
            \<lparr>sys_stdout = [], sys_stderr = print_exc pf e, files = fs, listening = None,
             replies = []\<rparr>)"
proof -
  have l: "listening pr1 = Some b \<Longrightarrow> TCPServer pf port (start fs) = Inr pr1 \<Longrightarrow>
      pr1 = (start fs)\<lparr>listening := Some b\<rparr>" for b
    by (auto simp: TCPServer_def split: sum.splits option.splits)
  have t: "TCPServer pf port (start fs) = Inr pr1 \<Longrightarrow> server_close pr1 = start fs"
    by (auto simp: TCPServer_def server_close_def start_def split: sum.splits option.splits)
  from assms show ?thesis
    by (auto simp: python3_def main_def with_httpd_def print_def start_def t [unfolded start_def])
qed

lemma print_exc_nonempty: "print_exc pf e \<noteq> []"
  by (simp add: print_exc_def)



text \<open>
  C6. A failure at startup ends the process with a status that is not zero and a
  traceback on standard error, before anything is printed on standard output
  and without a listening socket: an argument that \<^verbatim>\<open>int\<close> rejects (the program
  does not fall back to port 8000), a failure of \<^verbatim>\<open>bind\<close> or \<^verbatim>\<open>listen\<close> (port in use,
  no permission, port out of range), and a failure of the first \<^verbatim>\<open>print\<close>.
\<close>

theorem startup_failure_is_fatal:
  assumes "argv_port pf argv = Inl e
           \<or> (argv_port pf argv = Inr port \<and> TCPServer pf port (start fs) = Inl e)
           \<or> (argv_port pf argv = Inr port \<and> TCPServer pf port (start fs) = Inr pr1
                \<and> print_error pf = Some e)"
  shows "\<exists>n. n \<noteq> 0
           \<and> python3 pf argv events (start fs) =
               (Exited n,
                \<lparr>sys_stdout = [], sys_stderr = print_exc pf e, files = fs, listening = None,
                 replies = []\<rparr>)
           \<and> print_exc pf e \<noteq> []"
  using python3_failed [OF assms, of events] print_exc_nonempty [of pf e]
  by (intro exI [of _ "if e = KeyboardInterrupt then 130 else 1"]) simp

theorem startup_failure_is_fatal_witness:
  "(\<exists>n. n \<noteq> 0
      \<and> python3 example_platform [''wasm_server.py'', ''80a''] [] (start example_files) =
          (Exited n,
           \<lparr>sys_stdout = [], sys_stderr = print_exc example_platform ValueError,
            files = example_files, listening = None, replies = []\<rparr>)
      \<and> print_exc example_platform ValueError \<noteq> [])
   \<and> (\<exists>n. n \<noteq> 0
      \<and> python3 example_platform [''wasm_server.py'', ''8080''] [] (start example_files) =
          (Exited n,
           \<lparr>sys_stdout = [], sys_stderr = print_exc example_platform OSError,
            files = example_files, listening = None, replies = []\<rparr>)
      \<and> print_exc example_platform OSError \<noteq> [])"
proof -
  have a: "argv_port example_platform [''wasm_server.py'', ''80a''] = Inl ValueError"
    by code_simp
  have b: "argv_port example_platform [''wasm_server.py'', ''8080''] = Inr 8080"
    by code_simp
  have c: "TCPServer example_platform 8080 (start example_files) = Inl OSError"
    by (simp add: TCPServer_def server_bind_def example_platform_def)
  have 1: "argv_port example_platform [''wasm_server.py'', ''80a''] = Inl ValueError
           \<or> (argv_port example_platform [''wasm_server.py'', ''80a''] = Inr 0
                \<and> TCPServer example_platform 0 (start example_files) = Inl ValueError)
           \<or> (argv_port example_platform [''wasm_server.py'', ''80a''] = Inr 0
                \<and> TCPServer example_platform 0 (start example_files) = Inr (start example_files)
                \<and> print_error example_platform = Some ValueError)"
    using a by simp
  have 2: "argv_port example_platform [''wasm_server.py'', ''8080''] = Inl OSError
           \<or> (argv_port example_platform [''wasm_server.py'', ''8080''] = Inr 8080
                \<and> TCPServer example_platform 8080 (start example_files) = Inl OSError)
           \<or> (argv_port example_platform [''wasm_server.py'', ''8080''] = Inr 8080
                \<and> TCPServer example_platform 8080 (start example_files) = Inr (start example_files)
                \<and> print_error example_platform = Some OSError)"
    using b c by simp
  show ?thesis
    using startup_failure_is_fatal [OF 1, of "[]"] startup_failure_is_fatal [OF 2, of "[]"]
    by blast
qed





text \<open>Four connections: a missing file, a connection that is reset before the request
  is read, a path with a null character, and a file that is there.\<close>

definition example_events :: "event list" where
  "example_events =
     [Connection \<lparr>peer = example_peer,
                  reads = [Line (''GET /missing.bin HTTP/1.1'' @ CRLF) (Parsed [])]\<rparr>,
      Connection \<lparr>peer = example_peer, reads = [ReadError ConnectionResetError]\<rparr>,
      AcceptError,
      Connection \<lparr>peer = example_peer,
                  reads = [Line (''GET /a'' @ [CHR 0x00] @ ''b HTTP/1.1'' @ CRLF) (Parsed [])]\<rparr>,
      Connection \<lparr>peer = example_peer,
                  reads = [Line (''GET /module.wasm HTTP/1.1'' @ CRLF) (Parsed [])]\<rparr>]"


text \<open>
  C8 (amended). The file system is the same after any run, whatever arrives, and
  standard output holds nothing, or the two lines of the startup and nothing
  else. Besides the bytes sent to the sockets the program writes to standard
  error: the inherited handler logs every response there, and tracebacks go
  there.
\<close>

theorem files_and_stdout_are_left_alone:
  assumes "python3 pf argv events (start fs) = (st, pr)"
  shows "files pr = fs
         \<and> (sys_stdout pr = []
             \<or> (\<exists>port. argv_port pf argv = Inr port
                   \<and> sys_stdout pr = serving_line port @ LF @ wasm_line @ LF))"
proof (cases "argv_port pf argv")
  case (Inl e)
  then have "argv_port pf argv = Inl e
      \<or> (argv_port pf argv = Inr 0 \<and> TCPServer pf 0 (start fs) = Inl e)
      \<or> (argv_port pf argv = Inr 0 \<and> TCPServer pf 0 (start fs) = Inr (start fs)
           \<and> print_error pf = Some e)" by simp
  from python3_failed [OF this, of events] assms show ?thesis by auto
next
  case (Inr port)
  show ?thesis
  proof (cases "TCPServer pf port (start fs)")
    case (Inl e)
    with Inr have "argv_port pf argv = Inl e
      \<or> (argv_port pf argv = Inr port \<and> TCPServer pf port (start fs) = Inl e)
      \<or> (argv_port pf argv = Inr port \<and> TCPServer pf port (start fs) = Inr (start fs)
           \<and> print_error pf = Some e)" by simp
    from python3_failed [OF this, of events] assms show ?thesis by auto
  next
    case t: (Inr pr1)
    have p1: "files pr1 = fs" "sys_stdout pr1 = []"
      using t by (auto simp: TCPServer_def start_def split: sum.splits option.splits)
    show ?thesis
    proof (cases "print_error pf")
      case (Some e)
      with Inr t have "argv_port pf argv = Inl e
        \<or> (argv_port pf argv = Inr port \<and> TCPServer pf port (start fs) = Inl e)
        \<or> (argv_port pf argv = Inr port \<and> TCPServer pf port (start fs) = Inr pr1
             \<and> print_error pf = Some e)" by simp
      from python3_failed [OF this, of events] assms show ?thesis by auto
    next
      case None
      let ?pr2 = "pr1\<lparr>sys_stdout := sys_stdout pr1 @ serving_line port @ LF @ wasm_line @ LF\<rparr>"
      obtain r where r: "serve_forever pf events ?pr2 = r" by simp
      from serve_forever_frame [OF r] have
        fr: "(case r of Inl x \<Rightarrow> files (snd x) = fs
                          \<and> sys_stdout (snd x) = serving_line port @ LF @ wasm_line @ LF
                      | Inr pr' \<Rightarrow> files pr' = fs
                          \<and> sys_stdout pr' = serving_line port @ LF @ wasm_line @ LF)"
        using p1 by (cases r) simp_all
      have "python3 pf argv events (start fs) =
              (case r of
                 Inr pr' \<Rightarrow> (Serving, pr')
               | Inl x \<Rightarrow>
                   (Exited (if fst x = KeyboardInterrupt then 130 else 1),
                    (server_close (snd x))\<lparr>sys_stderr := sys_stderr (server_close (snd x))
                       @ print_exc pf (fst x)\<rparr>))"
        using Inr t None r
        by (cases r) (simp_all add: python3_def main_def with_httpd_ok)
      with assms fr Inr show ?thesis
        by (cases r) (auto simp: server_close_def)
    qed
  qed
qed

theorem files_and_stdout_are_left_alone_witness:
  "files (snd (python3 example_platform [''wasm_server.py''] example_events
                (start example_files))) = example_files
   \<and> (sys_stdout (snd (python3 example_platform [''wasm_server.py''] example_events
                (start example_files))) = []
       \<or> (\<exists>port. argv_port example_platform [''wasm_server.py''] = Inr port
             \<and> sys_stdout (snd (python3 example_platform [''wasm_server.py''] example_events
                  (start example_files))) = serving_line port @ LF @ wasm_line @ LF))"
proof -
  have "python3 example_platform [''wasm_server.py''] example_events (start example_files)
        = (fst (python3 example_platform [''wasm_server.py''] example_events
                  (start example_files)),
           snd (python3 example_platform [''wasm_server.py''] example_events
                  (start example_files)))"
    by simp
  from files_and_stdout_are_left_alone [OF this] show ?thesis .
qed

lemma GET_file_200_run:
  assumes "length raw \<le> 65536"
    and "split_ws (rstrip_chars CRLF raw) = [''GET'', p, ver]"
    and "version_number pf ver = Some vn" and "\<not> tuple_ge vn (2, 0)"
    and "translate_path pf (getcwd pf) (collapse_slashes p) = q"
    and "\<not> isdir fs q" and "\<not> endswith q ''/''" and "py_open fs q = Inr f"
    and "\<not> not_modified pf hs (st_mtime f)"
  shows "\<exists>h. WASMHandler pf fs addr (Line raw (Parsed hs) # rds) = Inr h
           \<and> stderr h = stderr (log_request pf 200
                 (parsed raw ''GET'' p ver hs (new_handler pf addr)))"
proof -
  let ?h = "parsed raw ''GET'' p ver hs (new_handler pf addr)"
  have q: "translate_path pf (directory ?h) (path ?h) = q" using assms(5) by simp
  have nm: "\<not> not_modified pf (headers ?h) (st_mtime f)" using assms(9) by simp
  have "WASMHandler pf fs addr (Line raw (Parsed hs) # rds) = do_GET pf fs ?h"
    by (rule handle_closed) (rule handle_one_request_GET3 [OF assms(1-4)])
  then show ?thesis
    by (simp add: do_GET_file [OF q assms(6)] send_head_file_200 [OF assms(7,8) nm])
qed

lemma example_log_line:
  "stderr (log_request example_platform 200
     (parsed (''GET /module.wasm HTTP/1.1'' @ CRLF) ''GET'' ''/module.wasm'' ''HTTP/1.1'' []
        (new_handler example_platform example_peer)))
   = ''127.0.0.1 - - [01/Jan/1970 00:00:00] '' @ [CHR 0x22] @ ''GET /module.wasm HTTP/1.1''
       @ [CHR 0x22] @ '' 200 -'' @ LF"
  by code_simp

text \<open>
  C8 as stated fails at "no other I/O": one request for \<^verbatim>\<open>module.wasm\<close> leaves a
  line of the access log on standard error.
\<close>

theorem access_log_on_stderr_counterexample:
  "sys_stderr (snd (python3 example_platform [''wasm_server.py'']
      [Connection \<lparr>peer = example_peer,
                   reads = [Line (''GET /module.wasm HTTP/1.1'' @ CRLF) (Parsed [])]\<rparr>]
      (start example_files)))
   = ''127.0.0.1 - - [01/Jan/1970 00:00:00] '' @ [CHR 0x22] @ ''GET /module.wasm HTTP/1.1''
       @ [CHR 0x22] @ '' 200 -'' @ LF"
proof -
  let ?c = "\<lparr>peer = example_peer,
             reads = [Line (''GET /module.wasm HTTP/1.1'' @ CRLF) (Parsed [])]\<rparr>"
  let ?pr1 = "(start example_files)\<lparr>listening := Some 8000\<rparr>"
  let ?pr2 = "?pr1\<lparr>sys_stdout := sys_stdout ?pr1 @ serving_line 8000 @ LF @ wasm_line @ LF\<rparr>"
  have len: "length (''GET /module.wasm HTTP/1.1'' @ CRLF) \<le> 65536" by (simp add: CRLF_def)
  have e: "\<not> endswith ''/srv/www/module.wasm'' ''/''" by (simp add: endswith_def)
  have nm: "\<not> not_modified example_platform [] (st_mtime \<lparr>content = ''abc'', st_mtime = 1000\<rparr>)"
    by (simp add: not_modified_def header_get_def)
  from GET_file_200_run [OF len example_request_lines(1) example_version example_paths(1)
      example_nodes(1) e example_nodes(2) nm, of example_peer "[]"]
  obtain h where h: "WASMHandler example_platform example_files example_peer
        [Line (''GET /module.wasm HTTP/1.1'' @ CRLF) (Parsed [])] = Inr h"
      "stderr h = ''127.0.0.1 - - [01/Jan/1970 00:00:00] '' @ [CHR 0x22]
         @ ''GET /module.wasm HTTP/1.1'' @ [CHR 0x22] @ '' 200 -'' @ LF"
    unfolding example_log_line by blast
  have a: "argv_port example_platform [''wasm_server.py''] = Inr 8000"
    by (simp add: argv_port_def)
  have t: "TCPServer example_platform 8000 (start example_files) = Inr ?pr1"
    by (simp add: TCPServer_def server_bind_def example_platform_def)
  have p: "print_error example_platform = None" by (simp add: example_platform_def)
  have s: "serve_forever example_platform [Connection ?c] ?pr2
           = Inr (?pr2\<lparr>sys_stderr := sys_stderr ?pr2 @ stderr h,
                       replies := replies ?pr2 @ [(peer ?c, wfile h)]\<rparr>)"
    using h(1) by (simp add: handle_request_noblock_def start_def)
  from python3_started [OF a t p s] show ?thesis
    using h(2) by (simp add: start_def)
qed

end
